theory Spec2Isabelle
  imports Main
begin

section \<open>JavaScript values and built-ins used by \<^verbatim>\<open>local-rest-api.ts\<close>\<close>

text \<open>
  The module \<^verbatim>\<open>src/utils/local-rest-api.ts\<close> places a note in an Obsidian vault through the
  Local REST API. Its functions are embedded here one by one, under their own names, with the
  network, the console, the clock, the settings and \<^verbatim>\<open>sanitizeFileName\<close> as explicit
  parameters.

  A JavaScript string is modelled by \<^typ>\<open>string\<close>, holding the bytes of its text in UTF-8. A
  JavaScript string may hold an unpaired surrogate (a code unit U+D800..U+DFFF that is not
  half of a pair); it is written here as the three bytes that the UTF-8 scheme gives its code
  point, \<^verbatim>\<open>ED\<close>, then a byte in \<^verbatim>\<open>A0\<close>..\<^verbatim>\<open>BF\<close>, then a byte in \<^verbatim>\<open>80\<close>..\<^verbatim>\<open>BF\<close> (the generalised
  UTF-8 known as WTF-8, in which no other text contains \<^verbatim>\<open>ED\<close> followed by \<^verbatim>\<open>A0\<close>..\<^verbatim>\<open>BF\<close>).
  Every character the source compares against or inserts (\<^verbatim>\<open>/\<close>, \<^verbatim>\<open>{\<close>, \<^verbatim>\<open>T\<close>, the
  literals of the template strings) is ASCII, hence one byte that never occurs inside a
  multi-byte sequence, so \<^verbatim>\<open>startsWith\<close>, \<^verbatim>\<open>endsWith\<close> and \<^verbatim>\<open>split\<close> act on the bytes as they act
  on the text; and wherever the source joins two strings, one of them is empty or has an
  ASCII character at the joint, so that joining the bytes is joining the texts.
\<close>

definition startsWith :: "string \<Rightarrow> string \<Rightarrow> bool" where
  "startsWith s p = (take (length p) s = p)"

definition endsWith :: "string \<Rightarrow> string \<Rightarrow> bool" where
  "endsWith s p = (length p \<le> length s \<and> drop (length s - length p) s = p)"

text \<open>\<^verbatim>\<open>s.split('T')[0]\<close>: the part of \<open>s\<close> before the first \<^verbatim>\<open>T\<close>, all of \<open>s\<close> if there is none.\<close>

definition split_T_0 :: "string \<Rightarrow> string" where
  "split_T_0 s = takeWhile (\<lambda>c. c \<noteq> CHR ''T'') s"

text \<open>Number-to-string conversion of an integer, as a template literal performs it.\<close>

fun decimal :: "nat \<Rightarrow> string" where
  "decimal n = (if n < 10 then [''0123456789'' ! n]
                else decimal (n div 10) @ [''0123456789'' ! (n mod 10)])"

declare decimal.simps [simp del]

definition numberToString :: "int \<Rightarrow> string" where
  "numberToString i = (if i < 0 then ''-'' @ decimal (nat (- i)) else decimal (nat i))"

text \<open>
  A thrown value is an \<^verbatim>\<open>Error\<close> object with its message, or some other value; the
  handlers of the source tell the two apart with \<^verbatim>\<open>instanceof Error\<close>. The \<^verbatim>\<open>URIError\<close> of
  \<^verbatim>\<open>encodeURIComponent\<close> is an \<^verbatim>\<open>Error\<close>; its message is the engine's, here V8's.
\<close>

datatype thrown = ErrorObject string | NonError

definition URIError :: thrown where
  "URIError = ErrorObject ''URI malformed''"

text \<open>Whether a string holds an unpaired surrogate: \<^verbatim>\<open>ED\<close> followed by \<^verbatim>\<open>A0\<close>..\<^verbatim>\<open>BF\<close>.\<close>

fun hasUnpairedSurrogate :: "string \<Rightarrow> bool" where
  "hasUnpairedSurrogate (c # d # cs) =
     ((c = CHR 0xED \<and> (0xA0 :: nat) \<le> of_char d \<and> (of_char d :: nat) \<le> 0xBF)
      \<or> hasUnpairedSurrogate (d # cs))"
| "hasUnpairedSurrogate cs = False"

text \<open>
  \<^verbatim>\<open>encodeURIComponent\<close> throws \<^verbatim>\<open>URIError\<close> on a string that holds an unpaired surrogate.
  On any other string it returns the escaped string: the letters, the digits and
  \<^verbatim>\<open>- _ . ! ~ * ' ( )\<close> stand for themselves; every other character is replaced by the escapes
  \<^verbatim>\<open>%XX\<close> (upper-case hexadecimal) of the bytes of its UTF-8 encoding.
\<close>

definition uriUnreserved :: "char set" where
  "uriUnreserved = set (''ABCDEFGHIJKLMNOPQRSTUVWXYZabcdefghijklmnopqrstuvwxyz0123456789-_.!~*()''
                        @ [CHR 0x27])"

definition hexUpper :: "nat \<Rightarrow> char" where
  "hexUpper n = ''0123456789ABCDEF'' ! (n mod 16)"

definition percentEscape :: "char \<Rightarrow> string" where
  "percentEscape c = [CHR ''%'', hexUpper (of_char c div 16), hexUpper (of_char c mod 16)]"

definition percentEncode :: "string \<Rightarrow> string" where
  "percentEncode s = concat (map (\<lambda>c. if c \<in> uriUnreserved then [c] else percentEscape c) s)"

definition encodeURIComponent :: "string \<Rightarrow> thrown + string" where
  "encodeURIComponent s = (if hasUnpairedSurrogate s then Inl URIError else Inr (percentEncode s))"

text \<open>
  \<^verbatim>\<open>JSON.stringify\<close> of a string (QuoteJSONString): the quotation mark and the reverse
  solidus are escaped with a reverse solidus, the control characters below U+0020 by their
  short escapes or by \<^verbatim>\<open>\u00xx\<close>, an unpaired surrogate by \<^verbatim>\<open>\udxxx\<close> (lower-case
  hexadecimal); all else is copied.
\<close>

definition hexLower :: "nat \<Rightarrow> char" where
  "hexLower n = ''0123456789abcdef'' ! (n mod 16)"

definition quoteJSONChar :: "char \<Rightarrow> string" where
  \<open>quoteJSONChar c =
     (if c = CHR 0x08 then [CHR 0x5C, CHR ''b'']
      else if c = CHR 0x09 then [CHR 0x5C, CHR ''t'']
      else if c = CHR 0x0A then [CHR 0x5C, CHR ''n'']
      else if c = CHR 0x0C then [CHR 0x5C, CHR ''f'']
      else if c = CHR 0x0D then [CHR 0x5C, CHR ''r'']
      else if c = CHR 0x22 then [CHR 0x5C, CHR 0x22]
      else if c = CHR 0x5C then [CHR 0x5C, CHR 0x5C]
      else if (of_char c :: nat) < 32
        then [CHR 0x5C, CHR ''u'', CHR ''0'', CHR ''0'', hexLower (of_char c div 16), hexLower (of_char c mod 16)]
      else [c])\<close>

text \<open>The escape of the surrogate whose second and third bytes are \<open>d\<close> and \<open>f\<close>.\<close>

definition surrogateEscape :: "char \<Rightarrow> char \<Rightarrow> string" where
  "surrogateEscape d f =
     (let u = 0xD000 + (of_char d mod 64) * 64 + of_char f mod 64
      in [CHR 0x5C, CHR ''u'', hexLower (u div 4096), hexLower (u div 256), hexLower (u div 16),
          hexLower u])"

fun quoteJSONChars :: "string \<Rightarrow> string" where
  "quoteJSONChars (c # d # f # cs) =
     (if c = CHR 0xED \<and> (0xA0 :: nat) \<le> of_char d \<and> (of_char d :: nat) \<le> 0xBF
      then surrogateEscape d f @ quoteJSONChars cs
      else quoteJSONChar c @ quoteJSONChars (d # f # cs))"
| "quoteJSONChars (c # cs) = quoteJSONChar c @ quoteJSONChars cs"
| "quoteJSONChars [] = []"

definition quoteJSONString :: "string \<Rightarrow> string" where
  "quoteJSONString s = [CHR 0x22] @ quoteJSONChars s @ [CHR 0x22]"

text \<open>\<^verbatim>\<open>JSON.stringify({content: c, position: p})\<close>: the members in insertion order, no spaces.\<close>

definition JSON_stringify :: "string \<Rightarrow> string \<Rightarrow> string" where
  \<open>JSON_stringify c p =
     ''{"content":'' @ quoteJSONString c @ '',"position":'' @ quoteJSONString p @ ''}''\<close>

text \<open>
  A \<^verbatim>\<open>Date\<close> is modelled by its UTC fields (\<open>utcMonth\<close> counts from 0, as \<^verbatim>\<open>getUTCMonth\<close>
  does). \<^verbatim>\<open>toISOString\<close> prints \<^verbatim>\<open>YYYY-MM-DDTHH:mm:ss.sssZ\<close>, with a sign and six digits for a
  year outside 0..9999.
\<close>

record jsDate =
  utcFullYear :: int
  utcMonth :: nat
  utcDate :: nat
  utcHours :: nat
  utcMinutes :: nat
  utcSeconds :: nat
  utcMilliseconds :: nat

definition padStart0 :: "nat \<Rightarrow> string \<Rightarrow> string" where
  "padStart0 w s = replicate (w - length s) CHR ''0'' @ s"

definition isoYear :: "int \<Rightarrow> string" where
  "isoYear y = (if 0 \<le> y \<and> y \<le> 9999 then padStart0 4 (decimal (nat y))
                else (if y < 0 then ''-'' else ''+'') @ padStart0 6 (decimal (nat \<bar>y\<bar>)))"

definition isoDate :: "jsDate \<Rightarrow> string" where
  "isoDate d = isoYear (utcFullYear d) @ ''-'' @ padStart0 2 (decimal (utcMonth d + 1))
                 @ ''-'' @ padStart0 2 (decimal (utcDate d))"

definition toISOString :: "jsDate \<Rightarrow> string" where
  "toISOString d = isoDate d @ ''T'' @ padStart0 2 (decimal (utcHours d))
                     @ '':'' @ padStart0 2 (decimal (utcMinutes d))
                     @ '':'' @ padStart0 2 (decimal (utcSeconds d))
                     @ ''.'' @ padStart0 3 (decimal (utcMilliseconds d)) @ ''Z''"

section \<open>Configuration, network and console\<close>

text \<open>
  \<^verbatim>\<open>generalSettings\<close> is imported from \<^verbatim>\<open>storage-utils\<close>; the three fields the module reads
  are taken as given. An absent (\<^verbatim>\<open>undefined\<close>) string is \<open>None\<close>.
\<close>

record settings =
  localRestApiEnabled :: bool
  localRestApiUrl :: "string option"
  localRestApiKey :: "string option"

definition truthy :: "string option \<Rightarrow> bool" where
  "truthy v = (case v of None \<Rightarrow> False | Some s \<Rightarrow> s \<noteq> [])"

definition interpolate :: "string option \<Rightarrow> string" where
  "interpolate v = (case v of None \<Rightarrow> ''undefined'' | Some s \<Rightarrow> s)"

record request =
  rq_url :: string
  rq_method :: string
  rq_headers :: "(string \<times> string) list"
  rq_body :: "string option"

text \<open>A response: its status and what \<^verbatim>\<open>response.text()\<close> settles to (it may reject).\<close>

record response =
  rs_status :: nat
  rs_text :: "thrown + string"

definition ok :: "response \<Rightarrow> bool" where
  "ok r = (200 \<le> rs_status r \<and> rs_status r \<le> 299)"

datatype warning = UnexpectedResponse nat | CheckError thrown

datatype event = Fetch request | Warn warning

text \<open>
  The state: the remote service (of any type \<open>'w\<close>; it answers a request, or makes
  \<^verbatim>\<open>fetch\<close> reject, and moves on) and the trace of the effects performed so far.
\<close>

record 'w sys =
  remote :: 'w
  trace :: "event list"

text \<open>
  What the module takes from outside: the settings, \<^verbatim>\<open>sanitizeFileName\<close> of
  \<^verbatim>\<open>string-utils\<close>, the network behind \<^verbatim>\<open>fetch\<close>, and the clock (\<^verbatim>\<open>Date.now()\<close> in
  milliseconds, \<^verbatim>\<open>new Date()\<close>).
\<close>

record 'w env =
  generalSettings :: settings
  sanitizeFileName :: "string \<Rightarrow> string"
  network :: "'w \<Rightarrow> request \<Rightarrow> (thrown + response) \<times> 'w"
  Date_now :: int
  new_Date :: jsDate

definition fetch :: "'w env \<Rightarrow> request \<Rightarrow> 'w sys \<Rightarrow> (thrown + response) \<times> 'w sys" where
  "fetch e rq s =
     (case network e (remote s) rq of
        (out, w) \<Rightarrow> (out, \<lparr>remote = w, trace = trace s @ [Fetch rq]\<rparr>))"

definition console_warn :: "warning \<Rightarrow> 'w sys \<Rightarrow> 'w sys" where
  "console_warn m s = s\<lparr>trace := trace s @ [Warn m]\<rparr>"

definition bearer :: "settings \<Rightarrow> string \<times> string" where
  "bearer g = (''Authorization'', ''Bearer '' @ interpolate (localRestApiKey g))"

section \<open>The module\<close>

record LocalRestApiResponse =
  success :: bool
  error :: "string option"

definition isLocalRestApiAvailable :: "settings \<Rightarrow> bool" where
  "isLocalRestApiAvailable g =
     (if \<not> localRestApiEnabled g then False
      else if \<not> truthy (localRestApiUrl g) \<or> \<not> truthy (localRestApiKey g) then False
      else True)"



text \<open>
  \<^verbatim>\<open>checkFileExists\<close>: the \<^verbatim>\<open>try\<close> block, then the function with its handler, which
  warns and answers \<^verbatim>\<open>false\<close>. The two calls of \<^verbatim>\<open>encodeURIComponent\<close> stand inside the
  \<^verbatim>\<open>try\<close> block, the one of the file path first; when either throws, no request is made.
\<close>

definition checkFileExists_try ::
  "'w env \<Rightarrow> string \<Rightarrow> string \<Rightarrow> 'w sys \<Rightarrow> (thrown + bool) \<times> 'w sys" where
  "checkFileExists_try e vault filePath s =
     (case encodeURIComponent filePath of
        Inl x \<Rightarrow> (Inl x, s)
      | Inr encodedFilePath \<Rightarrow>
          (case (if vault \<noteq> []
                 then (case encodeURIComponent vault of
                         Inl x \<Rightarrow> Inl x
                       | Inr encodedVault \<Rightarrow>
                           Inr (interpolate (localRestApiUrl (generalSettings e)) @ ''/vault/''
                                  @ encodedVault @ ''/'' @ encodedFilePath))
                 else Inr (interpolate (localRestApiUrl (generalSettings e)) @ ''/vault/''
                             @ encodedFilePath)) of
             Inl x \<Rightarrow> (Inl x, s)
           | Inr url \<Rightarrow>
               (case fetch e \<lparr>rq_url = url, rq_method = ''GET'',
                               rq_headers = [bearer (generalSettings e)], rq_body = None\<rparr> s of
                  (Inl x, s') \<Rightarrow> (Inl x, s')
                | (Inr response, s') \<Rightarrow>
                    if ok response then (Inr True, s')
                    else if rs_status response = 404 then (Inr False, s')
                    else (Inr False,
                          console_warn (UnexpectedResponse (rs_status response)) s'))))"

definition checkFileExists :: "'w env \<Rightarrow> string \<Rightarrow> string \<Rightarrow> 'w sys \<Rightarrow> bool \<times> 'w sys" where
  "checkFileExists e vault filePath s =
     (case checkFileExists_try e vault filePath s of
        (Inr b, s') \<Rightarrow> (b, s')
      | (Inl x, s') \<Rightarrow> (False, console_warn (CheckError x) s'))"

text \<open>
  \<^verbatim>\<open>findAvailableFileName\<close>: the probe of the plain name, then the loop
  \<^verbatim>\<open>while (counter < 1000)\<close> from \<open>counter = 1\<close>, then the timestamp.
\<close>

function findAvailableFileName_loop ::
  "'w env \<Rightarrow> string \<Rightarrow> string \<Rightarrow> string \<Rightarrow> nat \<Rightarrow> 'w sys \<Rightarrow> string \<times> 'w sys" where
  "findAvailableFileName_loop e vault path baseName counter s =
     (if counter < 1000 then
        (let filePath = path @ baseName @ '' '' @ decimal counter @ ''.md'' in
         case checkFileExists e vault filePath s of
           (fileExists, s') \<Rightarrow>
             if \<not> fileExists then (filePath, s')
             else findAvailableFileName_loop e vault path baseName (counter + 1) s')
      else
        (let timestamp = Date_now e
         in (path @ baseName @ '' '' @ numberToString timestamp @ ''.md'', s)))"
  by pat_completeness auto
termination
  by (relation "measure (\<lambda>(e, vault, path, baseName, counter, s). 1000 - counter)") auto

declare findAvailableFileName_loop.simps [simp del]

definition findAvailableFileName ::
  "'w env \<Rightarrow> string \<Rightarrow> string \<Rightarrow> string \<Rightarrow> 'w sys \<Rightarrow> string \<times> 'w sys" where
  "findAvailableFileName e vault path baseName s =
     (let filePath = path @ baseName @ ''.md'' in
      case checkFileExists e vault filePath s of
        (fileExists, s') \<Rightarrow>
          if \<not> fileExists then (filePath, s')
          else findAvailableFileName_loop e vault path baseName 1 s')"

text \<open>
  \<^verbatim>\<open>Template['behavior']\<close> is declared in \<^verbatim>\<open>types/types\<close>; its values are the six tags the
  module and the specification name. \<open>Create\<close> is the one that reaches \<^verbatim>\<open>default:\<close>.
\<close>

datatype behavior =
  Create | AppendSpecific | AppendDaily | PrependSpecific | PrependDaily | Overwrite

text \<open>
  The local closure \<^verbatim>\<open>buildUrl\<close>, with the \<open>vault\<close> it captures as an argument. It throws
  what \<^verbatim>\<open>encodeURIComponent\<close> throws.
\<close>

definition buildUrl :: "'w env \<Rightarrow> string \<Rightarrow> string \<Rightarrow> thrown + string" where
  "buildUrl e vault targetPath =
     (case encodeURIComponent targetPath of
        Inl x \<Rightarrow> Inl x
      | Inr encodedPath \<Rightarrow>
          if vault \<noteq> []
          then (case encodeURIComponent vault of
                  Inl x \<Rightarrow> Inl x
                | Inr encodedVault \<Rightarrow>
                    Inr (interpolate (localRestApiUrl (generalSettings e)) @ ''/vault/''
                           @ encodedVault @ ''/'' @ encodedPath))
          else Inr (interpolate (localRestApiUrl (generalSettings e)) @ ''/vault/''
                      @ encodedPath))"

text \<open>\<^verbatim>\<open>if (path && !path.endsWith('/')) path += '/'\<close>\<close>

definition ensureTrailingSlash :: "string \<Rightarrow> string" where
  "ensureTrailingSlash path = (if path \<noteq> [] \<and> \<not> endsWith path ''/'' then path @ ''/'' else path)"

text \<open>
  The branches that choose \<open>url\<close>, \<open>method\<close> and \<open>body\<close>; \<open>path\<close> is the normalised path and
  \<open>formattedNoteName\<close> the sanitised name. A branch throws when its \<^verbatim>\<open>buildUrl\<close> throws;
  the handler of \<^verbatim>\<open>createNoteViaLocalRestApi\<close> then takes over.
\<close>

definition planRequest ::
  "'w env \<Rightarrow> string \<Rightarrow> string \<Rightarrow> string \<Rightarrow> string \<Rightarrow> behavior \<Rightarrow> 'w sys
     \<Rightarrow> (thrown + string \<times> string \<times> string) \<times> 'w sys" where
  "planRequest e fileContent formattedNoteName path vault behavior s =
     (let isDailyNote = (behavior = AppendDaily \<or> behavior = PrependDaily) in
      if isDailyNote then
        (let today = split_T_0 (toISOString (new_Date e));
             dailyNotePath = today @ ''.md''
         in case checkFileExists e vault dailyNotePath s of
              (dailyFileExists, s') \<Rightarrow>
                (case buildUrl e vault dailyNotePath of
                   Inl x \<Rightarrow> (Inl x, s')
                 | Inr url \<Rightarrow>
                     if \<not> dailyFileExists then (Inr (url, ''POST'', fileContent), s')
                     else if behavior = AppendDaily
                       then (Inr (url, ''PATCH'', JSON_stringify fileContent ''end''), s')
                     else (Inr (url, ''PATCH'', JSON_stringify fileContent ''start''), s')))
      else
        (case behavior of
           AppendSpecific \<Rightarrow>
             (let filePath = path @ formattedNoteName @ ''.md'' in
              case checkFileExists e vault filePath s of
                (appendFileExists, s') \<Rightarrow>
                  (case buildUrl e vault filePath of
                     Inl x \<Rightarrow> (Inl x, s')
                   | Inr url \<Rightarrow>
                       if \<not> appendFileExists then (Inr (url, ''POST'', fileContent), s')
                       else (Inr (url, ''PATCH'', JSON_stringify fileContent ''end''), s')))
         | PrependSpecific \<Rightarrow>
             (let filePath = path @ formattedNoteName @ ''.md'' in
              case checkFileExists e vault filePath s of
                (prependFileExists, s') \<Rightarrow>
                  (case buildUrl e vault filePath of
                     Inl x \<Rightarrow> (Inl x, s')
                   | Inr url \<Rightarrow>
                       if \<not> prependFileExists then (Inr (url, ''POST'', fileContent), s')
                       else (Inr (url, ''PATCH'', JSON_stringify fileContent ''start''), s')))
         | Overwrite \<Rightarrow>
             (let filePath = path @ formattedNoteName @ ''.md'' in
              case buildUrl e vault filePath of
                Inl x \<Rightarrow> (Inl x, s)
              | Inr url \<Rightarrow> (Inr (url, ''PUT'', fileContent), s))
         | _ \<Rightarrow>
             (case findAvailableFileName e vault path formattedNoteName s of
                (filePath, s') \<Rightarrow>
                  (case buildUrl e vault filePath of
                     Inl x \<Rightarrow> (Inl x, s')
                   | Inr url \<Rightarrow> (Inr (url, ''POST'', fileContent), s')))))"

text \<open>The headers: the credential, then the content type chosen from the body.\<close>

definition requestHeaders :: "settings \<Rightarrow> string \<Rightarrow> (string \<times> string) list" where
  "requestHeaders g body =
     [bearer g,
      (''Content-Type'', if startsWith body ''{'' then ''application/json'' else ''text/markdown'')]"

definition createNoteViaLocalRestApi_try ::
  "'w env \<Rightarrow> string \<Rightarrow> string \<Rightarrow> string \<Rightarrow> string \<Rightarrow> behavior \<Rightarrow> 'w sys
     \<Rightarrow> (thrown + LocalRestApiResponse) \<times> 'w sys" where
  "createNoteViaLocalRestApi_try e fileContent noteName path vault behavior s =
     (let available = isLocalRestApiAvailable (generalSettings e) in
      if \<not> available
      then (Inr \<lparr>success = False, error = Some ''Local REST API not available''\<rparr>, s)
      else
        (let path' = ensureTrailingSlash path;
             formattedNoteName = sanitizeFileName e noteName
         in case planRequest e fileContent formattedNoteName path' vault behavior s of
              (Inl x, s1) \<Rightarrow> (Inl x, s1)
            | (Inr (url, method, body), s1) \<Rightarrow>
                (let headers = requestHeaders (generalSettings e) body in
                 case fetch e \<lparr>rq_url = url, rq_method = method,
                                 rq_headers = headers, rq_body = Some body\<rparr> s1 of
                   (Inl x, s2) \<Rightarrow> (Inl x, s2)
                 | (Inr response, s2) \<Rightarrow>
                     if ok response then (Inr \<lparr>success = True, error = None\<rparr>, s2)
                     else (case rs_text response of
                             Inl x \<Rightarrow> (Inl x, s2)
                           | Inr errorText \<Rightarrow>
                               (Inr \<lparr>success = False,
                                     error = Some (''HTTP '' @ decimal (rs_status response)
                                                     @ '': '' @ errorText)\<rparr>,
                                s2)))))"

definition createNoteViaLocalRestApi ::
  "'w env \<Rightarrow> string \<Rightarrow> string \<Rightarrow> string \<Rightarrow> string \<Rightarrow> behavior \<Rightarrow> 'w sys
     \<Rightarrow> LocalRestApiResponse \<times> 'w sys" where
  "createNoteViaLocalRestApi e fileContent noteName path vault behavior s =
     (case createNoteViaLocalRestApi_try e fileContent noteName path vault behavior s of
        (Inr r, s') \<Rightarrow> (r, s')
      | (Inl x, s') \<Rightarrow>
          (\<lparr>success = False,
            error = Some (case x of ErrorObject m \<Rightarrow> m | NonError \<Rightarrow> ''Unknown error'')\<rparr>, s'))"

section \<open>Notions used to state the properties\<close>

text \<open>The requests of a trace, in the order they were sent.\<close>

fun requests_of :: "event list \<Rightarrow> request list" where
  "requests_of [] = []"
| "requests_of (Fetch rq # es) = rq # requests_of es"
| "requests_of (Warn m # es) = requests_of es"

text \<open>
  The URL of \<open>filePath\<close> in \<open>vault\<close>: the endpoint address, \<^verbatim>\<open>/vault/\<close>, the escaped vault and
  \<^verbatim>\<open>/\<close> unless the vault is empty, and the escaped file path.
\<close>

definition targetUrl :: "'w env \<Rightarrow> string \<Rightarrow> string \<Rightarrow> string" where
  "targetUrl e vault filePath =
     interpolate (localRestApiUrl (generalSettings e)) @ ''/vault/''
       @ (if vault = [] then [] else percentEncode vault @ ''/'') @ percentEncode filePath"

text \<open>The authenticated \<^verbatim>\<open>GET\<close> that asks whether \<open>filePath\<close> exists in \<open>vault\<close>.\<close>

definition existenceProbe :: "'w env \<Rightarrow> string \<Rightarrow> string \<Rightarrow> request" where
  "existenceProbe e vault filePath =
     \<lparr>rq_url = targetUrl e vault filePath, rq_method = ''GET'',
      rq_headers = [bearer (generalSettings e)], rq_body = None\<rparr>"

text \<open>
  The requests one call of the prober sends: the probe, or none when the vault or the file
  path holds an unpaired surrogate.
\<close>

definition probeRequests :: "'w env \<Rightarrow> string \<Rightarrow> string \<Rightarrow> request list" where
  "probeRequests e vault filePath =
     (if hasUnpairedSurrogate filePath \<or> hasUnpairedSurrogate vault then []
      else [existenceProbe e vault filePath])"

text \<open>The request that places \<open>body\<close> at \<open>filePath\<close> of \<open>vault\<close> with \<open>method\<close>.\<close>

definition noteRequest :: "'w env \<Rightarrow> string \<Rightarrow> string \<Rightarrow> string \<Rightarrow> string \<Rightarrow> request" where
  "noteRequest e vault filePath method body =
     \<lparr>rq_url = targetUrl e vault filePath, rq_method = method,
      rq_headers = requestHeaders (generalSettings e) body, rq_body = Some body\<rparr>"

text \<open>
  A calendar date written \<^verbatim>\<open>YYYY-MM-DD\<close>: the year in four decimal digits, the month and the
  day in two, each padded with zeros.
\<close>

fun fixedDigits :: "nat \<Rightarrow> nat \<Rightarrow> string" where
  "fixedDigits 0 n = []"
| "fixedDigits (Suc w) n = fixedDigits w (n div 10) @ [''0123456789'' ! (n mod 10)]"

definition yyyy_mm_dd :: "nat \<Rightarrow> nat \<Rightarrow> nat \<Rightarrow> string" where
  "yyyy_mm_dd y m d = fixedDigits 4 y @ ''-'' @ fixedDigits 2 m @ ''-'' @ fixedDigits 2 d"

text \<open>
  The collision-avoiding namer as the specification words it: the candidates are the plain
  name, then the names with the suffixes \<^verbatim>\<open>" 1"\<close> to \<^verbatim>\<open>" 999"\<close>; they are probed in this
  order and the first one reported absent is returned; when all are reported present the
  name with the millisecond timestamp is returned, with no further probe.
\<close>

definition candidates :: "string \<Rightarrow> string \<Rightarrow> string list" where
  "candidates path baseName =
     (path @ baseName @ ''.md'')
       # map (\<lambda>k. path @ baseName @ '' '' @ decimal k @ ''.md'') [1..<1000]"

fun firstAbsent ::
  "(string \<Rightarrow> 's \<Rightarrow> bool \<times> 's) \<Rightarrow> string list \<Rightarrow> 's \<Rightarrow> (string option \<times> nat) \<times> 's" where
  "firstAbsent probe [] s = ((None, 0), s)"
| "firstAbsent probe (c # cs) s =
     (case probe c s of
        (present, s') \<Rightarrow>
          if \<not> present then ((Some c, 1), s')
          else (case firstAbsent probe cs s' of ((r, n), s'') \<Rightarrow> ((r, Suc n), s'')))"

definition reserve :: "'w env \<Rightarrow> string \<Rightarrow> string \<Rightarrow> string \<Rightarrow> 'w sys \<Rightarrow> string \<times> 'w sys" where
  "reserve e vault path baseName s =
     (case firstAbsent (checkFileExists e vault) (candidates path baseName) s of
        ((Some c, n), s') \<Rightarrow> (c, s')
      | ((None, n), s') \<Rightarrow>
          (path @ baseName @ '' '' @ numberToString (Date_now e) @ ''.md'', s'))"

definition probesOf :: "'w env \<Rightarrow> string \<Rightarrow> string \<Rightarrow> string \<Rightarrow> 'w sys \<Rightarrow> nat" where
  "probesOf e vault path baseName s =
     snd (fst (firstAbsent (checkFileExists e vault) (candidates path baseName) s))"


text \<open>A string that ends with exactly one \<^verbatim>\<open>/\<close>: with one, and not with two.\<close>

definition endsWithOneSlash :: "string \<Rightarrow> bool" where
  "endsWithOneSlash p = (endsWith p ''/'' \<and> \<not> endsWith p ''//'')"

subsection \<open>A sample installation\<close>

text \<open>
  A complete configuration, a sanitiser that drops the characters \<^verbatim>\<open># | ^ [ ]\<close>, a fixed
  clock, and a remote that keeps the list of the URLs it holds: \<^verbatim>\<open>GET\<close> answers 200 or
  404, every other method stores the URL and answers 204.
\<close>

definition sampleSettings :: settings where
  "sampleSettings = \<lparr>localRestApiEnabled = True, localRestApiUrl = Some ''http://127.0.0.1:27123'',
                      localRestApiKey = Some ''secret''\<rparr>"

definition sampleVault :: "string list \<Rightarrow> request \<Rightarrow> (thrown + response) \<times> string list" where
  "sampleVault files rq =
     (if rq_method rq = ''GET''
      then (Inr \<lparr>rs_status = (if rq_url rq \<in> set files then 200 else 404), rs_text = Inr []\<rparr>, files)
      else (Inr \<lparr>rs_status = 204, rs_text = Inr []\<rparr>,
            if rq_url rq \<in> set files then files else rq_url rq # files))"

definition sampleEnv :: "string list env" where
  "sampleEnv = \<lparr>generalSettings = sampleSettings,
                sanitizeFileName = filter (\<lambda>c. c \<notin> set ''#|^[]''),
                network = sampleVault,
                Date_now = 1700000000000,
                new_Date = \<lparr>utcFullYear = 2024, utcMonth = 0, utcDate = 5, utcHours = 23,
                            utcMinutes = 59, utcSeconds = 7, utcMilliseconds = 42\<rparr>\<rparr>"

definition start :: "'w \<Rightarrow> 'w sys" where
  "start w = \<lparr>remote = w, trace = []\<rparr>"


definition offlineEnv :: "string list env" where
  "offlineEnv = sampleEnv\<lparr>network := (\<lambda>w rq. (Inl (ErrorObject ''Failed to fetch''), w))\<rparr>"

text \<open>The one-character string whose character is the unpaired surrogate U+D800.\<close>

definition loneSurrogate :: string where
  "loneSurrogate = [CHR 0xED, CHR 0xA0, CHR 0x80]"

section \<open>Properties\<close>

subsection \<open>Auxiliary facts\<close>

lemma requests_of_append [simp]: "requests_of (xs @ ys) = requests_of xs @ requests_of ys"
  by (induction xs rule: requests_of.induct) auto

lemma buildUrl_cases:
  "buildUrl e vault filePath =
     (if hasUnpairedSurrogate filePath \<or> hasUnpairedSurrogate vault then Inl URIError
      else Inr (targetUrl e vault filePath))"
  by (simp add: buildUrl_def encodeURIComponent_def targetUrl_def)

lemma checkFileExists_try_probe:
  "checkFileExists_try e vault filePath s =
     (if hasUnpairedSurrogate filePath \<or> hasUnpairedSurrogate vault then (Inl URIError, s)
      else
        (case fetch e (existenceProbe e vault filePath) s of
           (Inl x, s') \<Rightarrow> (Inl x, s')
         | (Inr response, s') \<Rightarrow>
             if ok response then (Inr True, s')
             else if rs_status response = 404 then (Inr False, s')
             else (Inr False, console_warn (UnexpectedResponse (rs_status response)) s')))"
  by (simp add: checkFileExists_try_def encodeURIComponent_def existenceProbe_def targetUrl_def)

lemma checkFileExists_unencodable:
  "hasUnpairedSurrogate filePath \<or> hasUnpairedSurrogate vault \<Longrightarrow>
     checkFileExists e vault filePath s = (False, console_warn (CheckError URIError) s)"
  by (simp add: checkFileExists_def checkFileExists_try_probe)

lemma checkFileExists_requests:
  "requests_of (trace (snd (checkFileExists e vault filePath s)))
     = requests_of (trace s) @ probeRequests e vault filePath"
  by (auto simp: checkFileExists_def checkFileExists_try_probe probeRequests_def fetch_def
      console_warn_def split: sum.splits prod.splits)

lemma createNote_trace_after_plan:
  assumes "isLocalRestApiAvailable (generalSettings e)"
    and "planRequest e fileContent (sanitizeFileName e noteName) (ensureTrailingSlash path)
           vault behavior s = (Inr (url, method, body), s1)"
  shows "trace (snd (createNoteViaLocalRestApi e fileContent noteName path vault behavior s))
           = trace s1 @ [Fetch \<lparr>rq_url = url, rq_method = method,
                rq_headers = requestHeaders (generalSettings e) body, rq_body = Some body\<rparr>]"
  using assms
  by (auto simp: createNoteViaLocalRestApi_def createNoteViaLocalRestApi_try_def Let_def fetch_def
      split: sum.splits prod.splits)

lemma createNote_plan_throws:
  assumes "isLocalRestApiAvailable (generalSettings e)"
    and "planRequest e fileContent (sanitizeFileName e noteName) (ensureTrailingSlash path)
           vault behavior s = (Inl x, s1)"
  shows "createNoteViaLocalRestApi e fileContent noteName path vault behavior s
           = (\<lparr>success = False,
               error = Some (case x of ErrorObject m \<Rightarrow> m | NonError \<Rightarrow> ''Unknown error'')\<rparr>, s1)"
  using assms
  by (simp add: createNoteViaLocalRestApi_def createNoteViaLocalRestApi_try_def Let_def)

lemma planRequest_specific:
  assumes "behavior = AppendSpecific \<or> behavior = PrependSpecific"
  shows "planRequest e fileContent name path vault behavior s =
     (case checkFileExists e vault (path @ name @ ''.md'') s of
        (present, s') \<Rightarrow>
          (if hasUnpairedSurrogate (path @ name @ ''.md'') \<or> hasUnpairedSurrogate vault
           then Inl URIError
           else Inr (targetUrl e vault (path @ name @ ''.md''),
                     if present then ''PATCH'' else ''POST'',
                     if present
                     then JSON_stringify fileContent
                            (if behavior = AppendSpecific then ''end'' else ''start'')
                     else fileContent), s'))"
  using assms by (auto simp: planRequest_def buildUrl_cases Let_def split: prod.splits)

lemma planRequest_overwrite:
  "planRequest e fileContent name path vault Overwrite s =
     (if hasUnpairedSurrogate (path @ name @ ''.md'') \<or> hasUnpairedSurrogate vault
      then Inl URIError
      else Inr (targetUrl e vault (path @ name @ ''.md''), ''PUT'', fileContent), s)"
  by (simp add: planRequest_def buildUrl_cases)

text \<open>The unfoldings that evaluate a run of the sample installation.\<close>

lemmas sample_run =
  createNoteViaLocalRestApi_def createNoteViaLocalRestApi_try_def planRequest_def
  checkFileExists_def checkFileExists_try_def buildUrl_def requestHeaders_def bearer_def
  ensureTrailingSlash_def startsWith_def endsWith_def isLocalRestApiAvailable_def truthy_def
  interpolate_def fetch_def console_warn_def ok_def encodeURIComponent_def percentEncode_def
  uriUnreserved_def percentEscape_def hexUpper_def URIError_def targetUrl_def
  existenceProbe_def probeRequests_def noteRequest_def loneSurrogate_def
  JSON_stringify_def quoteJSONString_def quoteJSONChar_def hexLower_def
  sampleEnv_def sampleSettings_def sampleVault_def start_def Let_def

subsection \<open>The availability check guards every call\<close>

text \<open>
  Claim C3. \<^verbatim>\<open>isLocalRestApiAvailable\<close> answers false exactly when the integration is
  disabled or the endpoint address or the API key is absent or empty. When it answers false,
  \<^verbatim>\<open>createNoteViaLocalRestApi\<close> returns \<^verbatim>\<open>{success: false}\<close> with the message
  \<^verbatim>\<open>Local REST API not available\<close>, for every behaviour and every input, and leaves the
  state as it found it: the trace gains no event, so no \<^verbatim>\<open>fetch\<close> of any kind occurs.
\<close>

theorem unavailable_no_network:
  "(isLocalRestApiAvailable g \<longleftrightarrow>
      localRestApiEnabled g \<and> localRestApiUrl g \<notin> {None, Some []}
        \<and> localRestApiKey g \<notin> {None, Some []})
   \<and> (\<not> isLocalRestApiAvailable (generalSettings e) \<longrightarrow>
        createNoteViaLocalRestApi e fileContent noteName path vault behavior s
          = (\<lparr>success = False, error = Some ''Local REST API not available''\<rparr>, s))"
  by (auto simp: isLocalRestApiAvailable_def truthy_def createNoteViaLocalRestApi_def
      createNoteViaLocalRestApi_try_def split: option.splits)

theorem unavailable_no_network_witness:
  "\<not> isLocalRestApiAvailable (sampleSettings\<lparr>localRestApiKey := Some []\<rparr>)
   \<and> createNoteViaLocalRestApi (sampleEnv\<lparr>generalSettings := sampleSettings\<lparr>localRestApiKey := Some []\<rparr>\<rparr>)
         ''# Hi'' ''Note'' ''Logs'' ''Main'' Overwrite (start [])
       = (\<lparr>success = False, error = Some ''Local REST API not available''\<rparr>, start [])"
  using unavailable_no_network
    [of "sampleSettings\<lparr>localRestApiKey := Some []\<rparr>"
        "sampleEnv\<lparr>generalSettings := sampleSettings\<lparr>localRestApiKey := Some []\<rparr>\<rparr>"
        "''# Hi''" "''Note''" "''Logs''" "''Main''" Overwrite "start []"]
  by (simp add: sampleSettings_def)

subsection \<open>The existence prober\<close>

text \<open>
  Claim C4. When neither the vault nor the file path holds an unpaired surrogate,
  \<^verbatim>\<open>checkFileExists\<close> sends one \<^verbatim>\<open>GET\<close>. It answers true exactly when a response arrives
  whose status is in 200..299. On status 404 it answers false and warns nothing; on any
  other status outside 200..299 it answers false after one warning that carries the status;
  when the request throws it answers false after one warning that carries the thrown value.
  When the vault or the file path holds an unpaired surrogate, \<^verbatim>\<open>encodeURIComponent\<close> throws
  inside the \<^verbatim>\<open>try\<close> block: nothing is sent, and the answer is false after one warning that
  carries the \<^verbatim>\<open>URIError\<close>. In every case the function returns a truth value: whatever its
  \<^verbatim>\<open>try\<close> block throws is turned into \<^verbatim>\<open>false\<close> by the handler, and nothing reaches the
  caller.
\<close>

theorem checkFileExists_outcome:
  assumes "network e (remote s) (existenceProbe e vault filePath) = (out, w)"
  shows "(\<not> hasUnpairedSurrogate filePath \<and> \<not> hasUnpairedSurrogate vault \<longrightarrow>
            (fst (checkFileExists e vault filePath s) \<longleftrightarrow>
               (\<exists>r. out = Inr r \<and> 200 \<le> rs_status r \<and> rs_status r \<le> 299))
          \<and> remote (snd (checkFileExists e vault filePath s)) = w
          \<and> trace (snd (checkFileExists e vault filePath s)) =
              trace s @ [Fetch (existenceProbe e vault filePath)] @
                (case out of
                   Inl x \<Rightarrow> [Warn (CheckError x)]
                 | Inr r \<Rightarrow>
                     if (200 \<le> rs_status r \<and> rs_status r \<le> 299) \<or> rs_status r = 404 then []
                     else [Warn (UnexpectedResponse (rs_status r))]))
       \<and> (hasUnpairedSurrogate filePath \<or> hasUnpairedSurrogate vault \<longrightarrow>
            checkFileExists e vault filePath s
              = (False, s\<lparr>trace := trace s @ [Warn (CheckError URIError)]\<rparr>))
       \<and> (\<forall>x s'. checkFileExists_try e vault filePath s = (Inl x, s') \<longrightarrow>
             checkFileExists e vault filePath s = (False, console_warn (CheckError x) s'))"
  using assms
  by (auto simp: checkFileExists_def checkFileExists_try_probe fetch_def ok_def console_warn_def
      split: sum.splits)

theorem checkFileExists_outcome_witness:
  "network offlineEnv (remote (start [])) (existenceProbe offlineEnv ''Main'' ''Logs/Note.md'')
     = (Inl (ErrorObject ''Failed to fetch''), [])
   \<and> \<not> hasUnpairedSurrogate ''Logs/Note.md'' \<and> \<not> hasUnpairedSurrogate ''Main''
   \<and> \<not> fst (checkFileExists offlineEnv ''Main'' ''Logs/Note.md'' (start []))
   \<and> trace (snd (checkFileExists offlineEnv ''Main'' ''Logs/Note.md'' (start [])))
       = [Fetch \<lparr>rq_url = ''http://127.0.0.1:27123/vault/Main/Logs%2FNote.md'', rq_method = ''GET'',
                  rq_headers = [(''Authorization'', ''Bearer secret'')], rq_body = None\<rparr>,
          Warn (CheckError (ErrorObject ''Failed to fetch''))]
   \<and> hasUnpairedSurrogate loneSurrogate
   \<and> checkFileExists offlineEnv ''Main'' loneSurrogate (start [])
       = (False, \<lparr>remote = [], trace = [Warn (CheckError (ErrorObject ''URI malformed''))]\<rparr>)"
proof -
  have n: "network offlineEnv (remote (start [])) (existenceProbe offlineEnv vault filePath)
     = (Inl (ErrorObject ''Failed to fetch''), [])" for vault filePath
    by (simp add: offlineEnv_def start_def)
  have w: "\<not> hasUnpairedSurrogate ''Logs/Note.md'' \<and> \<not> hasUnpairedSurrogate ''Main''"
    by simp
  have u: "hasUnpairedSurrogate loneSurrogate"
    by (simp add: loneSurrogate_def)
  show ?thesis
    using n w u checkFileExists_outcome [OF n, of "''Main''" "''Logs/Note.md''"]
      checkFileExists_outcome [OF n, of "''Main''" loneSurrogate]
    by (simp add: offlineEnv_def sample_run)
qed

subsection \<open>Notes at a given path: append, prepend, overwrite\<close>

lemma regular_requests:
  assumes "isLocalRestApiAvailable (generalSettings e)"
    and "target = ensureTrailingSlash path @ sanitizeFileName e noteName @ ''.md''"
    and "\<not> hasUnpairedSurrogate vault"
    and "\<not> hasUnpairedSurrogate target"
  shows "behavior = AppendSpecific \<or> behavior = PrependSpecific \<Longrightarrow>
           requests_of (trace (snd (createNoteViaLocalRestApi e fileContent noteName path vault
                                      behavior s)))
             = requests_of (trace s) @
                 [existenceProbe e vault target,
                  if fst (checkFileExists e vault target s)
                  then noteRequest e vault target ''PATCH''
                         (JSON_stringify fileContent
                            (if behavior = AppendSpecific then ''end'' else ''start''))
                  else noteRequest e vault target ''POST'' fileContent]"
    and "behavior = Overwrite \<Longrightarrow>
           trace (snd (createNoteViaLocalRestApi e fileContent noteName path vault behavior s))
             = trace s @ [Fetch (noteRequest e vault target ''PUT'' fileContent)]"
proof -
  {
    assume b: "behavior = AppendSpecific \<or> behavior = PrependSpecific"
    obtain p s1 where c: "checkFileExists e vault target s = (p, s1)"
      by (cases "checkFileExists e vault target s")
    have s1: "requests_of (trace s1) = requests_of (trace s) @ [existenceProbe e vault target]"
      using checkFileExists_requests [of e vault target s] c assms(3,4)
      by (simp add: probeRequests_def)
    have "planRequest e fileContent (sanitizeFileName e noteName) (ensureTrailingSlash path)
            vault behavior s
          = (Inr (targetUrl e vault target,
                  if p then ''PATCH'' else ''POST'',
                  if p then JSON_stringify fileContent
                              (if behavior = AppendSpecific then ''end'' else ''start'')
                  else fileContent), s1)"
      using planRequest_specific [OF b, of e fileContent "sanitizeFileName e noteName"
          "ensureTrailingSlash path" vault s] c assms(2,3,4)
      by simp
    from createNote_trace_after_plan [OF assms(1) this]
    show "requests_of (trace (snd (createNoteViaLocalRestApi e fileContent noteName path vault
                                      behavior s)))
             = requests_of (trace s) @
                 [existenceProbe e vault target,
                  if fst (checkFileExists e vault target s)
                  then noteRequest e vault target ''PATCH''
                         (JSON_stringify fileContent
                            (if behavior = AppendSpecific then ''end'' else ''start''))
                  else noteRequest e vault target ''POST'' fileContent]"
      by (simp add: s1 c noteRequest_def)
  }
  {
    assume b: "behavior = Overwrite"
    have "planRequest e fileContent (sanitizeFileName e noteName) (ensureTrailingSlash path)
            vault behavior s
          = (Inr (targetUrl e vault target, ''PUT'', fileContent), s)"
      using assms(2,3,4) by (simp add: b planRequest_overwrite)
    from createNote_trace_after_plan [OF assms(1) this]
    show "trace (snd (createNoteViaLocalRestApi e fileContent noteName path vault behavior s))
            = trace s @ [Fetch (noteRequest e vault target ''PUT'' fileContent)]"
      by (simp add: noteRequest_def)
  }
qed

lemma regular_unencodable:
  assumes "isLocalRestApiAvailable (generalSettings e)"
    and "hasUnpairedSurrogate vault
         \<or> hasUnpairedSurrogate (ensureTrailingSlash path @ sanitizeFileName e noteName @ ''.md'')"
    and "behavior = AppendSpecific \<or> behavior = PrependSpecific \<or> behavior = Overwrite"
  shows "fst (createNoteViaLocalRestApi e fileContent noteName path vault behavior s)
           = \<lparr>success = False, error = Some ''URI malformed''\<rparr>"
    and "requests_of (trace (snd (createNoteViaLocalRestApi e fileContent noteName path vault
                                    behavior s)))
           = requests_of (trace s)"
proof -
  let ?target = "ensureTrailingSlash path @ sanitizeFileName e noteName @ ''.md''"
  have u: "hasUnpairedSurrogate ?target \<or> hasUnpairedSurrogate vault"
    using assms(2) by blast
  obtain s1 where p: "planRequest e fileContent (sanitizeFileName e noteName)
            (ensureTrailingSlash path) vault behavior s = (Inl URIError, s1)"
    and r: "requests_of (trace s1) = requests_of (trace s)"
  proof (cases "behavior = Overwrite")
    case True
    then show ?thesis
      using u that [of s] by (simp add: planRequest_overwrite)
  next
    case False
    then have b: "behavior = AppendSpecific \<or> behavior = PrependSpecific"
      using assms(3) by blast
    have c: "checkFileExists e vault ?target s = (False, console_warn (CheckError URIError) s)"
      using u by (rule checkFileExists_unencodable)
    have "planRequest e fileContent (sanitizeFileName e noteName) (ensureTrailingSlash path)
            vault behavior s = (Inl URIError, console_warn (CheckError URIError) s)"
      using planRequest_specific [OF b, of e fileContent "sanitizeFileName e noteName"
          "ensureTrailingSlash path" vault s] c u
      by auto
    moreover have "requests_of (trace (console_warn (CheckError URIError) s))
                     = requests_of (trace s)"
      by (simp add: console_warn_def)
    ultimately show ?thesis
      using that by blast
  qed
  from createNote_plan_throws [OF assms(1) p]
  show "fst (createNoteViaLocalRestApi e fileContent noteName path vault behavior s)
           = \<lparr>success = False, error = Some ''URI malformed''\<rparr>"
    and "requests_of (trace (snd (createNoteViaLocalRestApi e fileContent noteName path vault
                                    behavior s)))
           = requests_of (trace s)"
    by (simp_all add: URIError_def r)
qed

text \<open>
  Claim C1, as the code has it. Let the integration be available and let the target be the
  normalised directory path followed by the sanitised note name and \<^verbatim>\<open>.md\<close>. When neither
  the vault nor the target holds an unpaired surrogate: for \<^verbatim>\<open>append-specific\<close> and
  \<^verbatim>\<open>prepend-specific\<close> the call sends exactly two requests, first the existence probe of
  the target, then, if the prober answered absent, a \<^verbatim>\<open>POST\<close> of the raw document body, and
  if it answered present, a \<^verbatim>\<open>PATCH\<close> whose body is the JSON text of
  \<^verbatim>\<open>{content: body, position: "end"}\<close> for append and \<^verbatim>\<open>position: "start"\<close> for prepend; for
  \<^verbatim>\<open>overwrite\<close> the trace gains one single event, a \<^verbatim>\<open>PUT\<close> of the raw body to the same
  target, and no probe is sent. When the vault or the target holds an unpaired surrogate,
  \<^verbatim>\<open>encodeURIComponent\<close> throws: the three behaviours send no request at all and return
  \<^verbatim>\<open>{success: false}\<close> with the message of the \<^verbatim>\<open>URIError\<close>. (When the integration is not
  available nothing is sent either, which is claim C3.)
\<close>

theorem regular_note_requests:
  assumes "isLocalRestApiAvailable (generalSettings e)"
    and "target = ensureTrailingSlash path @ sanitizeFileName e noteName @ ''.md''"
    and "present = fst (checkFileExists e vault target s)"
    and "final = snd (createNoteViaLocalRestApi e fileContent noteName path vault behavior s)"
  shows "(\<not> hasUnpairedSurrogate vault \<and> \<not> hasUnpairedSurrogate target \<longrightarrow>
            (behavior = AppendSpecific \<or> behavior = PrependSpecific \<longrightarrow>
               requests_of (trace final) = requests_of (trace s) @
                 [existenceProbe e vault target,
                  if present
                  then noteRequest e vault target ''PATCH''
                         (JSON_stringify fileContent
                            (if behavior = AppendSpecific then ''end'' else ''start''))
                  else noteRequest e vault target ''POST'' fileContent])
          \<and> (behavior = Overwrite \<longrightarrow>
               trace final = trace s @ [Fetch (noteRequest e vault target ''PUT'' fileContent)]))
       \<and> ((hasUnpairedSurrogate vault \<or> hasUnpairedSurrogate target)
            \<and> (behavior = AppendSpecific \<or> behavior = PrependSpecific \<or> behavior = Overwrite) \<longrightarrow>
            requests_of (trace final) = requests_of (trace s)
          \<and> fst (createNoteViaLocalRestApi e fileContent noteName path vault behavior s)
              = \<lparr>success = False, error = Some ''URI malformed''\<rparr>)"
  using regular_requests [OF assms(1) assms(2), of vault behavior fileContent s]
    regular_unencodable [OF assms(1), of vault path noteName behavior fileContent s]
  by (auto simp: assms(2,3,4))

theorem regular_note_requests_witness:
  \<open>isLocalRestApiAvailable (generalSettings sampleEnv)
   \<and> ensureTrailingSlash ''Logs'' @ sanitizeFileName sampleEnv ''Daily [Log]'' @ ''.md''
       = ''Logs/Daily Log.md''
   \<and> \<not> hasUnpairedSurrogate ''Main'' \<and> \<not> hasUnpairedSurrogate ''Logs/Daily Log.md''
   \<and> fst (checkFileExists sampleEnv ''Main'' ''Logs/Daily Log.md''
            (start [''http://127.0.0.1:27123/vault/Main/Logs%2FDaily%20Log.md'']))
   \<and> requests_of (trace (snd (createNoteViaLocalRestApi sampleEnv ''# Hi'' ''Daily [Log]'' ''Logs''
        ''Main'' PrependSpecific (start [''http://127.0.0.1:27123/vault/Main/Logs%2FDaily%20Log.md'']))))
       = [\<lparr>rq_url = ''http://127.0.0.1:27123/vault/Main/Logs%2FDaily%20Log.md'',
           rq_method = ''GET'',
           rq_headers = [(''Authorization'', ''Bearer secret'')], rq_body = None\<rparr>,
          \<lparr>rq_url = ''http://127.0.0.1:27123/vault/Main/Logs%2FDaily%20Log.md'',
           rq_method = ''PATCH'',
           rq_headers = [(''Authorization'', ''Bearer secret''),
                         (''Content-Type'', ''application/json'')],
           rq_body = Some ''{"content":"# Hi","position":"start"}''\<rparr>]\<close>
proof -
  have a: "isLocalRestApiAvailable (generalSettings sampleEnv)"
    by (simp add: sample_run)
  have t: "''Logs/Daily Log.md''
             = ensureTrailingSlash ''Logs'' @ sanitizeFileName sampleEnv ''Daily [Log]'' @ ''.md''"
    by (simp add: sample_run)
  have w: "\<not> hasUnpairedSurrogate ''Main'' \<and> \<not> hasUnpairedSurrogate ''Logs/Daily Log.md''"
    by simp
  have p: "fst (checkFileExists sampleEnv ''Main'' ''Logs/Daily Log.md''
            (start [''http://127.0.0.1:27123/vault/Main/Logs%2FDaily%20Log.md'']))"
    by (simp add: sample_run)
  show ?thesis
    using a t w p regular_note_requests [where vault = "''Main''" and behavior = PrependSpecific
        and fileContent = "''# Hi''"
        and s = "start [''http://127.0.0.1:27123/vault/Main/Logs%2FDaily%20Log.md'']",
        OF a t refl refl]
    by (simp add: sample_run)
qed

text \<open>
  The statement of C1 itself fails where the path holds an unpaired surrogate: with the
  integration available, \<^verbatim>\<open>overwrite\<close> sends no \<^verbatim>\<open>PUT\<close> (the state is left as it was), and
  \<^verbatim>\<open>append-specific\<close> sends neither a probe nor a \<^verbatim>\<open>POST\<close>; both return the failure
  \<^verbatim>\<open>URI malformed\<close>.
\<close>

theorem regular_note_unpaired_surrogate:
  "isLocalRestApiAvailable (generalSettings sampleEnv)
   \<and> createNoteViaLocalRestApi sampleEnv ''# Hi'' ''Note'' loneSurrogate ''Main'' Overwrite (start [])
       = (\<lparr>success = False, error = Some ''URI malformed''\<rparr>, start [])
   \<and> fst (createNoteViaLocalRestApi sampleEnv ''# Hi'' ''Note'' loneSurrogate ''Main'' AppendSpecific
            (start []))
       = \<lparr>success = False, error = Some ''URI malformed''\<rparr>
   \<and> requests_of (trace (snd (createNoteViaLocalRestApi sampleEnv ''# Hi'' ''Note'' loneSurrogate
                                 ''Main'' AppendSpecific (start []))))
       = []"
  by (simp add: sample_run)

subsection \<open>Dates\<close>

lemma decimal_chars: "set (decimal n) \<subseteq> set ''0123456789''"
proof (induction n rule: decimal.induct)
  case (1 n)
  have d: "''0123456789'' ! k \<in> set ''0123456789''" if "k < 10" for k
    using that by (intro nth_mem) simp
  show ?case
  proof (cases "n < 10")
    case True
    then show ?thesis
      using d [of n] by (subst decimal.simps) simp
  next
    case False
    then show ?thesis
      using "1.IH" d [of "n mod 10"] by (subst decimal.simps) simp
  qed
qed

lemma padStart0_chars: "set (padStart0 w (decimal n)) \<subseteq> set ''0123456789''"
  using decimal_chars [of n] by (auto simp: padStart0_def)

lemma isoDate_no_T: "CHR ''T'' \<notin> set (isoDate d)"
proof -
  have "CHR ''T'' \<notin> set (padStart0 w (decimal n))" for w n
    using padStart0_chars [of w n] by auto
  then show ?thesis
    by (simp add: isoDate_def isoYear_def)
qed

lemma today_isoDate: "split_T_0 (toISOString d) = isoDate d"
proof -
  have "takeWhile (\<lambda>c. c \<noteq> CHR ''T'') (isoDate d @ CHR ''T'' # r) = isoDate d" for r
    using isoDate_no_T [of d] by (subst takeWhile_append2) auto
  then show ?thesis
    by (simp add: split_T_0_def toISOString_def)
qed

lemma fixedDigits_zero: "fixedDigits w 0 = replicate w CHR ''0''"
  by (induction w) (simp_all add: replicate_append_same)

lemma decimal_nonempty: "decimal n \<noteq> []"
  by (subst decimal.simps) simp

lemma padStart0_snoc:
  "xs \<noteq> [] \<Longrightarrow> padStart0 (Suc w) (xs @ [c]) = padStart0 w xs @ [c]"
  by (simp add: padStart0_def)

lemma padStart0_decimal: "0 < w \<Longrightarrow> n < 10 ^ w \<Longrightarrow> padStart0 w (decimal n) = fixedDigits w n"
proof (induction w arbitrary: n)
  case 0
  then show ?case by simp
next
  case (Suc w)
  show ?case
  proof (cases "n < 10")
    case True
    then show ?thesis
      by (subst decimal.simps) (simp add: padStart0_def fixedDigits_zero)
  next
    case False
    have lt: "n div 10 < 10 ^ w"
      using Suc.prems by (simp add: less_mult_imp_div_less mult.commute)
    have "0 < w"
    proof (rule ccontr)
      assume "\<not> 0 < w"
      then show False using lt False by simp
    qed
    then have "padStart0 w (decimal (n div 10)) = fixedDigits w (n div 10)"
      using lt by (rule Suc.IH)
    then show ?thesis
      using False
      by (subst decimal.simps) (simp add: padStart0_snoc decimal_nonempty)
  qed
qed

lemma isoDate_yyyy_mm_dd:
  assumes "0 \<le> utcFullYear d" "utcFullYear d \<le> 9999" "utcMonth d < 12" "utcDate d \<le> 31"
  shows "isoDate d = yyyy_mm_dd (nat (utcFullYear d)) (utcMonth d + 1) (utcDate d)"
proof -
  have "padStart0 4 (decimal (nat (utcFullYear d))) = fixedDigits 4 (nat (utcFullYear d))"
    using assms by (intro padStart0_decimal) simp_all
  moreover have "padStart0 2 (decimal (utcMonth d + 1)) = fixedDigits 2 (utcMonth d + 1)"
    using assms by (intro padStart0_decimal) simp_all
  moreover have "padStart0 2 (decimal (utcDate d)) = fixedDigits 2 (utcDate d)"
    using assms by (intro padStart0_decimal) simp_all
  ultimately show ?thesis
    using assms by (simp add: isoDate_def isoYear_def yyyy_mm_dd_def)
qed

lemma fixedDigits_2:
  "fixedDigits 2 n = [''0123456789'' ! (n div 10 mod 10), ''0123456789'' ! (n mod 10)]"
proof -
  have "fixedDigits (Suc (Suc 0)) n
          = [''0123456789'' ! (n div 10 mod 10), ''0123456789'' ! (n mod 10)]"
    by simp
  moreover have "(2::nat) = Suc (Suc 0)"
    by simp
  ultimately show ?thesis
    by metis
qed

lemma fixedDigits_4:
  "fixedDigits 4 n = [''0123456789'' ! (n div 10 div 10 div 10 mod 10),
                      ''0123456789'' ! (n div 10 div 10 mod 10),
                      ''0123456789'' ! (n div 10 mod 10), ''0123456789'' ! (n mod 10)]"
proof -
  have "fixedDigits (Suc (Suc (Suc (Suc 0)))) n
          = [''0123456789'' ! (n div 10 div 10 div 10 mod 10),
             ''0123456789'' ! (n div 10 div 10 mod 10),
             ''0123456789'' ! (n div 10 mod 10), ''0123456789'' ! (n mod 10)]"
    by simp
  moreover have "(4::nat) = Suc (Suc (Suc (Suc 0)))"
    by simp
  ultimately show ?thesis
    by metis
qed

lemma length_fixedDigits: "length (fixedDigits w n) = w"
  by (induction w arbitrary: n) simp_all


subsection \<open>Strings without an unpaired surrogate\<close>

lemma no_ED_no_surrogate: "CHR 0xED \<notin> set s \<Longrightarrow> \<not> hasUnpairedSurrogate s"
  by (induction s rule: hasUnpairedSurrogate.induct) auto

lemma hasUnpairedSurrogate_append:
  assumes "CHR 0xED \<notin> set (c # t)" and "(of_char c :: nat) < 0xA0"
  shows "hasUnpairedSurrogate (x @ c # t) = hasUnpairedSurrogate x"
proof -
  have tail: "\<not> hasUnpairedSurrogate (c # t)"
    using assms(1) by (rule no_ED_no_surrogate)
  show ?thesis
    using tail assms(2)
    by (induction x rule: hasUnpairedSurrogate.induct) simp_all
qed

lemma decimal_no_ED: "CHR 0xED \<notin> set (decimal n)"
  using decimal_chars [of n] by auto

lemma isoDate_no_ED: "CHR 0xED \<notin> set (isoDate d)"
proof -
  have "CHR 0xED \<notin> set (padStart0 w (decimal n))" for w n
    using padStart0_chars [of w n] by auto
  then show ?thesis
    by (simp add: isoDate_def isoYear_def)
qed

lemma daily_path_no_surrogate: "\<not> hasUnpairedSurrogate (isoDate d @ ''.md'')"
  using isoDate_no_ED [of d] by (intro no_ED_no_surrogate) simp

subsection \<open>Daily notes\<close>

lemma planRequest_daily:
  assumes "behavior = AppendDaily \<or> behavior = PrependDaily"
  shows "planRequest e fileContent name path vault behavior s =
     (case checkFileExists e vault (isoDate (new_Date e) @ ''.md'') s of
        (present, s') \<Rightarrow>
          (if hasUnpairedSurrogate vault then Inl URIError
           else Inr (targetUrl e vault (isoDate (new_Date e) @ ''.md''),
                     if present then ''PATCH'' else ''POST'',
                     if present
                     then JSON_stringify fileContent
                            (if behavior = AppendDaily then ''end'' else ''start'')
                     else fileContent), s'))"
  using assms
  by (auto simp: planRequest_def buildUrl_cases daily_path_no_surrogate today_isoDate Let_def
      split: prod.splits)

text \<open>
  Claim C2, as the code has it. Let the integration be available and the behaviour be
  \<^verbatim>\<open>append-daily\<close> or \<^verbatim>\<open>prepend-daily\<close>. The target is the date part of
  \<^verbatim>\<open>new Date().toISOString()\<close> followed by \<^verbatim>\<open>.md\<close>; for a date of the years 0 to 9999 that is
  \<^verbatim>\<open>YYYY-MM-DD.md\<close>, ten characters for the UTC calendar day. The directory path of the caller
  takes no part in it. When the vault holds no unpaired surrogate, the call sends exactly two
  requests: the existence probe of that target, then a \<^verbatim>\<open>POST\<close> of the whole document body
  as raw text if the prober answered absent, and if it answered present a \<^verbatim>\<open>PATCH\<close> whose
  body is the JSON text of \<^verbatim>\<open>{content, position: "end"}\<close> for append-daily and of
  \<^verbatim>\<open>{content, position: "start"}\<close> for prepend-daily. When the vault holds an unpaired
  surrogate, \<^verbatim>\<open>encodeURIComponent\<close> throws: no request is sent and the call returns
  \<^verbatim>\<open>{success: false}\<close> with the message of the \<^verbatim>\<open>URIError\<close>.
\<close>

theorem daily_note_requests:
  assumes "isLocalRestApiAvailable (generalSettings e)"
    and "behavior = AppendDaily \<or> behavior = PrependDaily"
    and "target = split_T_0 (toISOString (new_Date e)) @ ''.md''"
    and "present = fst (checkFileExists e vault target s)"
    and "final = snd (createNoteViaLocalRestApi e fileContent noteName path vault behavior s)"
  shows "(\<not> hasUnpairedSurrogate vault \<longrightarrow>
          requests_of (trace final) = requests_of (trace s) @
            [existenceProbe e vault target,
             if present
             then noteRequest e vault target ''PATCH''
                    (JSON_stringify fileContent (if behavior = AppendDaily then ''end'' else ''start''))
             else noteRequest e vault target ''POST'' fileContent])
       \<and> (hasUnpairedSurrogate vault \<longrightarrow>
            requests_of (trace final) = requests_of (trace s)
          \<and> fst (createNoteViaLocalRestApi e fileContent noteName path vault behavior s)
              = \<lparr>success = False, error = Some ''URI malformed''\<rparr>)
       \<and> (0 \<le> utcFullYear (new_Date e) \<and> utcFullYear (new_Date e) \<le> 9999
            \<and> utcMonth (new_Date e) < 12 \<and> utcDate (new_Date e) \<le> 31 \<longrightarrow>
          target = yyyy_mm_dd (nat (utcFullYear (new_Date e))) (utcMonth (new_Date e) + 1)
                     (utcDate (new_Date e)) @ ''.md''
          \<and> length target = 13)"
proof (intro conjI impI)
  have t: "target = isoDate (new_Date e) @ ''.md''"
    by (simp add: assms(3) today_isoDate)
  obtain p s1 where c: "checkFileExists e vault target s = (p, s1)"
    by (cases "checkFileExists e vault target s")
  have p: "p = present"
    using c assms(4) by simp
  note plan = planRequest_daily [OF assms(2), of e fileContent "sanitizeFileName e noteName"
        "ensureTrailingSlash path" vault s]
  {
    assume v: "\<not> hasUnpairedSurrogate vault"
    have s1: "requests_of (trace s1) = requests_of (trace s) @ [existenceProbe e vault target]"
      using checkFileExists_requests [of e vault target s] c v daily_path_no_surrogate
      by (simp add: probeRequests_def t)
    have "planRequest e fileContent (sanitizeFileName e noteName) (ensureTrailingSlash path)
            vault behavior s
          = (Inr (targetUrl e vault target,
                  if p then ''PATCH'' else ''POST'',
                  if p then JSON_stringify fileContent
                              (if behavior = AppendDaily then ''end'' else ''start'')
                  else fileContent), s1)"
      using plan c v by (simp add: t)
    from createNote_trace_after_plan [OF assms(1) this]
    show "requests_of (trace final) = requests_of (trace s) @
            [existenceProbe e vault target,
             if present
             then noteRequest e vault target ''PATCH''
                    (JSON_stringify fileContent (if behavior = AppendDaily then ''end'' else ''start''))
             else noteRequest e vault target ''POST'' fileContent]"
      by (simp add: assms(5) s1 p noteRequest_def)
  }
  {
    assume v: "hasUnpairedSurrogate vault"
    have s1: "requests_of (trace s1) = requests_of (trace s)"
      using checkFileExists_requests [of e vault target s] c v
      by (simp add: probeRequests_def)
    have "planRequest e fileContent (sanitizeFileName e noteName) (ensureTrailingSlash path)
            vault behavior s = (Inl URIError, s1)"
      using plan c v by (simp add: t)
    from createNote_plan_throws [OF assms(1) this]
    show "requests_of (trace final) = requests_of (trace s)"
      and "fst (createNoteViaLocalRestApi e fileContent noteName path vault behavior s)
              = \<lparr>success = False, error = Some ''URI malformed''\<rparr>"
      by (simp_all add: assms(5) s1 URIError_def)
  }
next
  assume d: "0 \<le> utcFullYear (new_Date e) \<and> utcFullYear (new_Date e) \<le> 9999
            \<and> utcMonth (new_Date e) < 12 \<and> utcDate (new_Date e) \<le> 31"
  then show y: "target = yyyy_mm_dd (nat (utcFullYear (new_Date e))) (utcMonth (new_Date e) + 1)
                     (utcDate (new_Date e)) @ ''.md''"
    by (simp add: assms(3) today_isoDate isoDate_yyyy_mm_dd)
  show "length target = 13"
    by (simp add: y yyyy_mm_dd_def length_fixedDigits)
qed

lemma sample_today: "split_T_0 (toISOString (new_Date sampleEnv)) = ''2024-01-05''"
  by (simp add: today_isoDate isoDate_yyyy_mm_dd sampleEnv_def yyyy_mm_dd_def
      fixedDigits_2 fixedDigits_4)

theorem daily_note_requests_witness:
  \<open>isLocalRestApiAvailable (generalSettings sampleEnv)
   \<and> split_T_0 (toISOString (new_Date sampleEnv)) @ ''.md'' = ''2024-01-05.md''
   \<and> \<not> hasUnpairedSurrogate ''Main''
   \<and> \<not> fst (checkFileExists sampleEnv ''Main'' ''2024-01-05.md'' (start []))
   \<and> requests_of (trace (snd (createNoteViaLocalRestApi sampleEnv ''# Hi'' ''Daily [Log]'' ''Logs''
        ''Main'' AppendDaily (start []))))
       = [\<lparr>rq_url = ''http://127.0.0.1:27123/vault/Main/2024-01-05.md'',
           rq_method = ''GET'',
           rq_headers = [(''Authorization'', ''Bearer secret'')], rq_body = None\<rparr>,
          \<lparr>rq_url = ''http://127.0.0.1:27123/vault/Main/2024-01-05.md'',
           rq_method = ''POST'',
           rq_headers = [(''Authorization'', ''Bearer secret''),
                         (''Content-Type'', ''text/markdown'')],
           rq_body = Some ''# Hi''\<rparr>]
   \<and> yyyy_mm_dd 2024 1 5 = ''2024-01-05''\<close>
proof -
  have a: "isLocalRestApiAvailable (generalSettings sampleEnv)"
    by (simp add: sample_run)
  have t: "''2024-01-05.md'' = split_T_0 (toISOString (new_Date sampleEnv)) @ ''.md''"
    by (simp add: sample_today)
  have v: "\<not> hasUnpairedSurrogate ''Main''"
    by simp
  have p: "\<not> fst (checkFileExists sampleEnv ''Main'' ''2024-01-05.md'' (start []))"
    by (simp add: sample_run)
  have y: "yyyy_mm_dd 2024 1 5 = ''2024-01-05''"
    by (simp add: yyyy_mm_dd_def fixedDigits_2 fixedDigits_4)
  show ?thesis
    using a t v p y daily_note_requests [where vault = "''Main''" and behavior = AppendDaily
        and fileContent = "''# Hi''" and s = "start []" and path = "''Logs''"
        and noteName = "''Daily [Log]''", OF a _ t refl refl]
    by (simp add: sample_run)
qed

text \<open>
  The statement of C2 itself fails where the vault holds an unpaired surrogate: with the
  integration available, \<^verbatim>\<open>append-daily\<close> sends neither a probe nor a \<^verbatim>\<open>POST\<close>; the prober
  warns, and the call returns the failure \<^verbatim>\<open>URI malformed\<close>.
\<close>

theorem daily_note_unpaired_surrogate:
  "isLocalRestApiAvailable (generalSettings sampleEnv)
   \<and> createNoteViaLocalRestApi sampleEnv ''# Hi'' ''Note'' ''Logs'' loneSurrogate AppendDaily (start [])
       = (\<lparr>success = False, error = Some ''URI malformed''\<rparr>,
          \<lparr>remote = [], trace = [Warn (CheckError (ErrorObject ''URI malformed''))]\<rparr>)
   \<and> requests_of (trace (snd (createNoteViaLocalRestApi sampleEnv ''# Hi'' ''Note'' ''Logs''
                                 loneSurrogate AppendDaily (start []))))
       = []"
  by (simp add: sample_today sample_run)

lemma checkFileExists_sanitizer:
  "checkFileExists (e\<lparr>sanitizeFileName := f\<rparr>) vault filePath s = checkFileExists e vault filePath s"
  by (simp add: checkFileExists_def checkFileExists_try_probe existenceProbe_def targetUrl_def
      fetch_def)

lemma fetch_sanitizer: "fetch (e\<lparr>sanitizeFileName := f\<rparr>) rq s = fetch e rq s"
  by (simp add: fetch_def)

lemma generalSettings_sanitizer: "generalSettings (e\<lparr>sanitizeFileName := f\<rparr>) = generalSettings e"
  by simp

subsection \<open>The note name on the daily branch\<close>

text \<open>
  Claim C10. For \<^verbatim>\<open>append-daily\<close> and \<^verbatim>\<open>prepend-daily\<close>, two calls that agree on the
  document body, the path, the vault, the behaviour, the clock, the settings and the remote,
  and differ in the note name only, return the same result and leave the same state: the
  same requests (URL, method, headers, body) in the same order, the same remote. The
  sanitiser plays no part either: the call of \<^verbatim>\<open>sanitizeFileName\<close> that precedes the branch
  yields a value the branch never reads, so replacing the sanitiser changes nothing.
\<close>

theorem daily_ignores_note_name:
  assumes "behavior = AppendDaily \<or> behavior = PrependDaily"
  shows "createNoteViaLocalRestApi e fileContent noteName path vault behavior s
           = createNoteViaLocalRestApi e fileContent otherName path vault behavior s
       \<and> createNoteViaLocalRestApi (e\<lparr>sanitizeFileName := f\<rparr>) fileContent noteName path vault
             behavior s
           = createNoteViaLocalRestApi e fileContent noteName path vault behavior s"
proof
  have a: "planRequest e fileContent (sanitizeFileName e noteName) (ensureTrailingSlash path)
             vault behavior s
           = planRequest e fileContent (sanitizeFileName e otherName) (ensureTrailingSlash path)
               vault behavior s"
    by (simp add: planRequest_daily [OF assms])
  show "createNoteViaLocalRestApi e fileContent noteName path vault behavior s
           = createNoteViaLocalRestApi e fileContent otherName path vault behavior s"
    unfolding createNoteViaLocalRestApi_def createNoteViaLocalRestApi_try_def Let_def a
    by (rule refl)
  have b: "planRequest (e\<lparr>sanitizeFileName := f\<rparr>) fileContent (f noteName)
             (ensureTrailingSlash path) vault behavior s
           = planRequest e fileContent (sanitizeFileName e noteName) (ensureTrailingSlash path)
               vault behavior s"
    by (simp add: planRequest_daily [OF assms] checkFileExists_sanitizer targetUrl_def
        split: prod.splits)
  have c: "sanitizeFileName (e\<lparr>sanitizeFileName := f\<rparr>) noteName = f noteName"
    by simp
  show "createNoteViaLocalRestApi (e\<lparr>sanitizeFileName := f\<rparr>) fileContent noteName path vault
             behavior s
           = createNoteViaLocalRestApi e fileContent noteName path vault behavior s"
    unfolding createNoteViaLocalRestApi_def createNoteViaLocalRestApi_try_def Let_def
      generalSettings_sanitizer fetch_sanitizer c b
    by (rule refl)
qed

theorem daily_ignores_note_name_witness:
  "createNoteViaLocalRestApi sampleEnv ''# Hi'' ''Daily [Log]'' ''Logs'' ''Main'' PrependDaily
       (start [''http://127.0.0.1:27123/vault/Main/2024-01-05.md''])
     = createNoteViaLocalRestApi sampleEnv ''# Hi'' ''Another name'' ''Logs'' ''Main'' PrependDaily
         (start [''http://127.0.0.1:27123/vault/Main/2024-01-05.md''])
   \<and> createNoteViaLocalRestApi (sampleEnv\<lparr>sanitizeFileName := rev\<rparr>) ''# Hi'' ''Daily [Log]''
         ''Logs'' ''Main'' PrependDaily (start [''http://127.0.0.1:27123/vault/Main/2024-01-05.md''])
     = createNoteViaLocalRestApi sampleEnv ''# Hi'' ''Daily [Log]'' ''Logs'' ''Main'' PrependDaily
         (start [''http://127.0.0.1:27123/vault/Main/2024-01-05.md''])"
  using daily_ignores_note_name [where behavior = PrependDaily and e = sampleEnv
      and fileContent = "''# Hi''" and noteName = "''Daily [Log]''" and otherName = "''Another name''"
      and path = "''Logs''" and vault = "''Main''" and f = rev
      and s = "start [''http://127.0.0.1:27123/vault/Main/2024-01-05.md'']"]
  by simp

subsection \<open>The collision-avoiding namer\<close>

lemma firstAbsent_count: "firstAbsent probe cs s = ((r, n), s') \<Longrightarrow> n \<le> length cs"
proof (induction cs arbitrary: s r n s')
  case Nil
  then show ?case by simp
next
  case (Cons a cs)
  obtain present s1 where p: "probe a s = (present, s1)"
    by (cases "probe a s")
  obtain r2 m s2 where f: "firstAbsent probe cs s1 = ((r2, m), s2)"
    by (cases "firstAbsent probe cs s1") auto
  show ?case
    using Cons.prems p f Cons.IH [OF f]
    by (cases present) auto
qed

lemma firstAbsent_found:
  "firstAbsent probe cs s = ((Some c, n), s') \<Longrightarrow> 0 < n \<and> n \<le> length cs \<and> c = cs ! (n - 1)"
proof (induction cs arbitrary: s n)
  case Nil
  then show ?case by simp
next
  case (Cons a cs)
  obtain present s1 where p: "probe a s = (present, s1)"
    by (cases "probe a s")
  show ?case
  proof (cases present)
    case False
    then show ?thesis
      using Cons.prems p by simp
  next
    case True
    obtain r m s2 where f: "firstAbsent probe cs s1 = ((r, m), s2)"
      by (cases "firstAbsent probe cs s1") auto
    have "r = Some c" "n = Suc m" "s2 = s'"
      using Cons.prems p True f by simp_all
    with Cons.IH [of s1 m] f show ?thesis
      by (cases m) auto
  qed
qed

lemma firstAbsent_none:
  "firstAbsent probe cs s = ((None, n), s') \<Longrightarrow> n = length cs"
proof (induction cs arbitrary: s n)
  case Nil
  then show ?case by simp
next
  case (Cons a cs)
  obtain present s1 where p: "probe a s = (present, s1)"
    by (cases "probe a s")
  obtain r m s2 where f: "firstAbsent probe cs s1 = ((r, m), s2)"
    by (cases "firstAbsent probe cs s1") auto
  show ?case
    using Cons.prems p f Cons.IH [of s1 m]
    by (cases present) auto
qed

lemma firstAbsent_requests:
  "firstAbsent (checkFileExists e vault) cs s = ((r, n), s') \<Longrightarrow>
     requests_of (trace s')
       = requests_of (trace s) @ concat (map (probeRequests e vault) (take n cs))"
proof (induction cs arbitrary: s r n s')
  case Nil
  then show ?case by simp
next
  case (Cons a cs)
  obtain present s1 where p: "checkFileExists e vault a s = (present, s1)"
    by (cases "checkFileExists e vault a s")
  have s1: "requests_of (trace s1) = requests_of (trace s) @ probeRequests e vault a"
    using checkFileExists_requests [of e vault a s] p by simp
  show ?case
  proof (cases present)
    case False
    then show ?thesis
      using Cons.prems p s1 by auto
  next
    case True
    obtain r2 m s2 where f: "firstAbsent (checkFileExists e vault) cs s1 = ((r2, m), s2)"
      by (cases "firstAbsent (checkFileExists e vault) cs s1") auto
    have "n = Suc m" "s2 = s'"
      using Cons.prems p True f by simp_all
    with Cons.IH [OF f] s1 show ?thesis
      by simp
  qed
qed

lemma findAvailableFileName_loop_firstAbsent:
  "findAvailableFileName_loop e vault path baseName counter s =
     (case firstAbsent (checkFileExists e vault)
             (map (\<lambda>k. path @ baseName @ '' '' @ decimal k @ ''.md'') [counter..<1000]) s of
        ((Some c, n), s') \<Rightarrow> (c, s')
      | ((None, n), s') \<Rightarrow>
          (path @ baseName @ '' '' @ numberToString (Date_now e) @ ''.md'', s'))"
proof (induction e vault path baseName counter s rule: findAvailableFileName_loop.induct)
  case (1 e vault path baseName counter s)
  show ?case
  proof (cases "counter < 1000")
    case False
    then show ?thesis
      by (subst findAvailableFileName_loop.simps) simp
  next
    case True
    let ?name = "path @ baseName @ '' '' @ decimal counter @ ''.md''"
    obtain present s1 where p: "checkFileExists e vault ?name s = (present, s1)"
      by (cases "checkFileExists e vault ?name s")
    have u: "[counter..<1000] = counter # [counter + 1..<1000]"
      using True by (simp add: upt_conv_Cons)
    show ?thesis
    proof (cases present)
      case False
      then show ?thesis
        using True p by (subst findAvailableFileName_loop.simps) (simp add: u)
    next
      case True
      have "findAvailableFileName_loop e vault path baseName counter s
              = findAvailableFileName_loop e vault path baseName (counter + 1) s1"
        using \<open>counter < 1000\<close> p True by (subst findAvailableFileName_loop.simps) simp
      also have "\<dots> = (case firstAbsent (checkFileExists e vault)
             (map (\<lambda>k. path @ baseName @ '' '' @ decimal k @ ''.md'') [counter + 1..<1000]) s1 of
           ((Some c, n), s') \<Rightarrow> (c, s')
         | ((None, n), s') \<Rightarrow>
             (path @ baseName @ '' '' @ numberToString (Date_now e) @ ''.md'', s'))"
        using "1.IH" [OF \<open>counter < 1000\<close> refl p [symmetric]] True by simp
      finally show ?thesis
        using p True by (simp add: u split: prod.splits option.splits)
    qed
  qed
qed

lemma findAvailableFileName_reserve:
  "findAvailableFileName e vault path baseName s = reserve e vault path baseName s"
proof -
  obtain present s1 where p: "checkFileExists e vault (path @ baseName @ ''.md'') s = (present, s1)"
    by (cases "checkFileExists e vault (path @ baseName @ ''.md'') s")
  show ?thesis
    using p
    by (simp add: findAvailableFileName_def reserve_def candidates_def
        findAvailableFileName_loop_firstAbsent split: prod.splits option.splits)
qed

lemma candidates_surrogate:
  "c \<in> set (candidates path baseName) \<Longrightarrow>
     hasUnpairedSurrogate c = hasUnpairedSurrogate (path @ baseName)"
proof -
  have plain: "hasUnpairedSurrogate ((path @ baseName) @ CHR ''.'' # ''md'')
                 = hasUnpairedSurrogate (path @ baseName)"
    by (rule hasUnpairedSurrogate_append) simp_all
  have suffixed: "hasUnpairedSurrogate ((path @ baseName) @ CHR '' '' # (decimal k @ ''.md''))
                 = hasUnpairedSurrogate (path @ baseName)" for k
    using decimal_no_ED [of k] by (intro hasUnpairedSurrogate_append) simp_all
  assume "c \<in> set (candidates path baseName)"
  then show ?thesis
    using plain suffixed by (auto simp: candidates_def)
qed

lemma probes_of_candidates:
  assumes "\<not> hasUnpairedSurrogate vault" and "\<not> hasUnpairedSurrogate (path @ baseName)"
  shows "concat (map (probeRequests e vault) (take n (candidates path baseName)))
           = map (existenceProbe e vault) (take n (candidates path baseName))"
proof -
  have "probeRequests e vault c = [existenceProbe e vault c]"
    if "c \<in> set (take n (candidates path baseName))" for c
    using that assms candidates_surrogate [of c path baseName]
    by (auto simp: probeRequests_def dest: in_set_takeD)
  then have "map (probeRequests e vault) (take n (candidates path baseName))
               = map (\<lambda>c. [existenceProbe e vault c]) (take n (candidates path baseName))"
    by (intro map_cong refl)
  then show ?thesis
    by (simp only: concat_map_singleton)
qed

text \<open>
  Claim C5. \<^verbatim>\<open>findAvailableFileName\<close> is total and computes what the specification's namer
  computes, whatever the prober answers and however the remote changes between probes. When
  the prober reports the plain name absent, that name is returned after one probe. The
  prober is called on the first \<open>n\<close> candidates, in order, for some \<open>n\<close> between 1 and 1000;
  there are 1000 candidates, so at most 1000 probes. When neither the vault nor the path and
  base name hold an unpaired surrogate, each call sends its \<^verbatim>\<open>GET\<close>, and the requests sent are
  the probes of these \<open>n\<close> candidates. (When one of them does, the first call of the prober
  sends nothing and reports absent, and the plain name is returned.) The name returned is
  the \<open>n\<close>-th candidate, the first one reported absent, or, when all 1000 were reported
  present, the name with the decimal timestamp of \<^verbatim>\<open>Date.now()\<close>, for which nothing more is
  sent.
\<close>

theorem findAvailableFileName_first_absent:
  assumes "findAvailableFileName e vault path baseName s = (name, s')"
    and "n = probesOf e vault path baseName s"
  shows "(name, s') = reserve e vault path baseName s
       \<and> length (candidates path baseName) = 1000
       \<and> 1 \<le> n \<and> n \<le> 1000
       \<and> requests_of (trace s') = requests_of (trace s)
            @ concat (map (probeRequests e vault) (take n (candidates path baseName)))
       \<and> (\<not> hasUnpairedSurrogate vault \<and> \<not> hasUnpairedSurrogate (path @ baseName) \<longrightarrow>
            requests_of (trace s') = requests_of (trace s)
              @ map (existenceProbe e vault) (take n (candidates path baseName)))
       \<and> (hasUnpairedSurrogate vault \<or> hasUnpairedSurrogate (path @ baseName) \<longrightarrow>
            name = path @ baseName @ ''.md'' \<and> n = 1
            \<and> requests_of (trace s') = requests_of (trace s))
       \<and> (\<not> fst (checkFileExists e vault (path @ baseName @ ''.md'') s) \<longrightarrow>
            name = path @ baseName @ ''.md'' \<and> n = 1)
       \<and> (name = candidates path baseName ! (n - 1)
            \<or> (n = 1000
                \<and> name = path @ baseName @ '' '' @ numberToString (Date_now e) @ ''.md''))"
proof -
  let ?cs = "candidates path baseName"
  obtain r m s2 where f: "firstAbsent (checkFileExists e vault) ?cs s = ((r, m), s2)"
    by (cases "firstAbsent (checkFileExists e vault) ?cs s") auto
  have n: "n = m"
    using f assms(2) by (simp add: probesOf_def)
  have len: "length ?cs = 1000"
    by (simp add: candidates_def)
  have res: "(name, s') = reserve e vault path baseName s"
    using assms(1) by (simp add: findAvailableFileName_reserve)
  have s2: "s2 = s'"
    using res f by (auto simp: reserve_def split: option.splits)
  have req: "requests_of (trace s') = requests_of (trace s)
            @ concat (map (probeRequests e vault) (take n ?cs))"
    using firstAbsent_requests [OF f] n s2 by simp
  have pos: "1 \<le> m"
    using f by (auto simp: candidates_def split: prod.splits if_splits)
  have le: "m \<le> 1000"
    using firstAbsent_count [OF f] len by simp
  have first: "name = path @ baseName @ ''.md'' \<and> n = 1"
    if "\<not> fst (checkFileExists e vault (path @ baseName @ ''.md'') s)"
    using that f res n
    by (auto simp: reserve_def candidates_def split: prod.splits)
  have good: "requests_of (trace s') = requests_of (trace s)
              @ map (existenceProbe e vault) (take n ?cs)"
    if "\<not> hasUnpairedSurrogate vault \<and> \<not> hasUnpairedSurrogate (path @ baseName)"
    using that req by (simp add: probes_of_candidates)
  have bad: "name = path @ baseName @ ''.md'' \<and> n = 1
            \<and> requests_of (trace s') = requests_of (trace s)"
    if u: "hasUnpairedSurrogate vault \<or> hasUnpairedSurrogate (path @ baseName)"
  proof -
    have "path @ baseName @ ''.md'' \<in> set ?cs"
      by (simp add: candidates_def)
    then have "hasUnpairedSurrogate (path @ baseName @ ''.md'') \<or> hasUnpairedSurrogate vault"
      using u candidates_surrogate by blast
    then have c: "checkFileExists e vault (path @ baseName @ ''.md'') s
                    = (False, console_warn (CheckError URIError) s)"
      by (rule checkFileExists_unencodable)
    then have "findAvailableFileName e vault path baseName s
                 = (path @ baseName @ ''.md'', console_warn (CheckError URIError) s)"
      by (simp add: findAvailableFileName_def)
    then have "name = path @ baseName @ ''.md''" "s' = console_warn (CheckError URIError) s"
      using assms(1) by simp_all
    moreover have "n = 1"
      using first c by simp
    ultimately show ?thesis
      by (simp add: console_warn_def)
  qed
  have last: "name = ?cs ! (n - 1)
            \<or> (n = 1000 \<and> name = path @ baseName @ '' '' @ numberToString (Date_now e) @ ''.md'')"
  proof (cases r)
    case None
    then show ?thesis
      using firstAbsent_none [of "checkFileExists e vault" ?cs s m s2] f res n len
      by (simp add: reserve_def)
  next
    case (Some c)
    then show ?thesis
      using firstAbsent_found [of "checkFileExists e vault" ?cs s c m s2] f res n
      by (simp add: reserve_def)
  qed
  show ?thesis
    using res len pos le req good bad first last n by blast
qed

theorem findAvailableFileName_first_absent_witness:
  "findAvailableFileName sampleEnv ''Main'' ''Logs/'' ''Daily Log''
       (start [''http://127.0.0.1:27123/vault/Main/Logs%2FDaily%20Log.md''])
     = (''Logs/Daily Log 1.md'',
        \<lparr>remote = [''http://127.0.0.1:27123/vault/Main/Logs%2FDaily%20Log.md''],
         trace = [Fetch (existenceProbe sampleEnv ''Main'' ''Logs/Daily Log.md''),
                  Fetch (existenceProbe sampleEnv ''Main'' ''Logs/Daily Log 1.md'')]\<rparr>)
   \<and> reserve sampleEnv ''Main'' ''Logs/'' ''Daily Log''
         (start [''http://127.0.0.1:27123/vault/Main/Logs%2FDaily%20Log.md''])
     = (''Logs/Daily Log 1.md'',
        \<lparr>remote = [''http://127.0.0.1:27123/vault/Main/Logs%2FDaily%20Log.md''],
         trace = [Fetch (existenceProbe sampleEnv ''Main'' ''Logs/Daily Log.md''),
                  Fetch (existenceProbe sampleEnv ''Main'' ''Logs/Daily Log 1.md'')]\<rparr>)
   \<and> probesOf sampleEnv ''Main'' ''Logs/'' ''Daily Log''
         (start [''http://127.0.0.1:27123/vault/Main/Logs%2FDaily%20Log.md'']) \<le> 1000"
proof -
  have run: "findAvailableFileName sampleEnv ''Main'' ''Logs/'' ''Daily Log''
       (start [''http://127.0.0.1:27123/vault/Main/Logs%2FDaily%20Log.md''])
     = (''Logs/Daily Log 1.md'',
        \<lparr>remote = [''http://127.0.0.1:27123/vault/Main/Logs%2FDaily%20Log.md''],
         trace = [Fetch (existenceProbe sampleEnv ''Main'' ''Logs/Daily Log.md''),
                  Fetch (existenceProbe sampleEnv ''Main'' ''Logs/Daily Log 1.md'')]\<rparr>)"
    by (simp add: findAvailableFileName_def
        findAvailableFileName_loop.simps [of _ _ _ _ "Suc 0"] decimal.simps [of "Suc 0"]
        sample_run)
  show ?thesis
    using run findAvailableFileName_first_absent [OF run refl]
    by simp
qed

subsection \<open>The outcome of a request\<close>


lemma createNote_result_after_plan:
  assumes "isLocalRestApiAvailable (generalSettings e)"
    and "planRequest e fileContent (sanitizeFileName e noteName) (ensureTrailingSlash path)
           vault behavior s = (Inr (url, method, body), s1)"
    and "network e (remote s1) \<lparr>rq_url = url, rq_method = method,
            rq_headers = requestHeaders (generalSettings e) body, rq_body = Some body\<rparr> = (out, w)"
  shows "fst (createNoteViaLocalRestApi e fileContent noteName path vault behavior s) =
     (case out of
        Inl x \<Rightarrow> \<lparr>success = False,
                   error = Some (case x of ErrorObject m \<Rightarrow> m | NonError \<Rightarrow> ''Unknown error'')\<rparr>
      | Inr r \<Rightarrow>
          if 200 \<le> rs_status r \<and> rs_status r \<le> 299 then \<lparr>success = True, error = None\<rparr>
          else (case rs_text r of
                  Inl x \<Rightarrow> \<lparr>success = False,
                             error = Some (case x of ErrorObject m \<Rightarrow> m
                                                   | NonError \<Rightarrow> ''Unknown error'')\<rparr>
                | Inr t \<Rightarrow> \<lparr>success = False,
                             error = Some (''HTTP '' @ decimal (rs_status r) @ '': '' @ t)\<rparr>))"
  using assms
  by (auto simp: createNoteViaLocalRestApi_def createNoteViaLocalRestApi_try_def fetch_def
      Let_def ok_def split: sum.splits thrown.splits)




subsection \<open>Target URLs and the creation of a note\<close>

lemma planRequest_create:
  "planRequest e fileContent name path vault Create s =
     (case findAvailableFileName e vault path name s of
        (filePath, s') \<Rightarrow>
          (if hasUnpairedSurrogate filePath \<or> hasUnpairedSurrogate vault then Inl URIError
           else Inr (targetUrl e vault filePath, ''POST'', fileContent), s'))"
  by (simp add: planRequest_def buildUrl_cases split: prod.splits)

lemma findAvailableFileName_absent:
  assumes "\<not> fst (checkFileExists e vault (path @ baseName @ ''.md'') s)"
  shows "findAvailableFileName e vault path baseName s
           = (path @ baseName @ ''.md'', snd (checkFileExists e vault (path @ baseName @ ''.md'') s))"
  using assms
  by (cases "checkFileExists e vault (path @ baseName @ ''.md'') s")
    (simp add: findAvailableFileName_def Let_def)

lemma hasUnpairedSurrogate_join:
  assumes "x = [] \<or> last x \<noteq> CHR 0xED"
  shows "hasUnpairedSurrogate (x @ y) = (hasUnpairedSurrogate x \<or> hasUnpairedSurrogate y)"
proof -
  have single: "hasUnpairedSurrogate (a # y) = hasUnpairedSurrogate y" if "a \<noteq> CHR 0xED" for a
    using that by (cases y) simp_all
  show ?thesis
    using assms
    by (induction x rule: hasUnpairedSurrogate.induct) (simp_all add: single)
qed

text \<open>
  Claim C8. With the endpoint address \<open>base\<close>, a target URL is \<open>base\<close>, \<^verbatim>\<open>/vault/\<close>, the
  percent-encoded vault and \<^verbatim>\<open>/\<close> (both left out when the vault is empty), and the
  percent-encoded file path; no URL is formed, and \<^verbatim>\<open>URIError\<close> is thrown, when the vault
  or the file path holds an unpaired surrogate. Escaping the whole file path is escaping the
  directory and the file name one by one, and so is encoding it when the directory is empty
  or ends with \<^verbatim>\<open>/\<close>. The \<^verbatim>\<open>create\<close> behaviour posts the raw body to the URL of the name
  the namer returns. In the scenario of the specification (body \<^verbatim>\<open># Hi\<close>, name
  \<^verbatim>\<open>Daily Log\<close>, which the sanitiser leaves as it is, path \<^verbatim>\<open>Logs\<close>, vault \<^verbatim>\<open>Main\<close>, the prober
  reporting \<^verbatim>\<open>Logs/Daily Log.md\<close> absent) the requests are the probe and then one \<^verbatim>\<open>POST\<close> to
  \<open>base\<close>\<^verbatim>\<open>/vault/Main/Logs%2FDaily%20Log.md\<close> with the raw body \<^verbatim>\<open># Hi\<close>, and the result is
  \<^verbatim>\<open>{success: true}\<close> once the remote answers that \<^verbatim>\<open>POST\<close> with a status in 200..299.
\<close>

theorem create_note_target_url:
  assumes "isLocalRestApiAvailable (generalSettings e)"
    and "localRestApiUrl (generalSettings e) = Some base"
    and "localRestApiKey (generalSettings e) = Some key"
    and "post = \<lparr>rq_url = base @ ''/vault/Main/Logs%2FDaily%20Log.md'', rq_method = ''POST'',
                  rq_headers = [(''Authorization'', ''Bearer '' @ key),
                                (''Content-Type'', ''text/markdown'')],
                  rq_body = Some ''# Hi''\<rparr>"
    and "probe = \<lparr>rq_url = base @ ''/vault/Main/Logs%2FDaily%20Log.md'', rq_method = ''GET'',
                   rq_headers = [(''Authorization'', ''Bearer '' @ key)], rq_body = None\<rparr>"
  shows "buildUrl e vault filePath =
           (if hasUnpairedSurrogate filePath \<or> hasUnpairedSurrogate vault then Inl URIError
            else Inr (if vault = [] then base @ ''/vault/'' @ percentEncode filePath
                      else base @ ''/vault/'' @ percentEncode vault @ ''/''
                             @ percentEncode filePath))
       \<and> (encodeURIComponent vault = Inr encodedVault
            \<and> encodeURIComponent filePath = Inr encodedPath \<longrightarrow>
           buildUrl e vault filePath =
             Inr (if vault = [] then base @ ''/vault/'' @ encodedPath
                  else base @ ''/vault/'' @ encodedVault @ ''/'' @ encodedPath))
       \<and> percentEncode (directory @ fileName) = percentEncode directory @ percentEncode fileName
       \<and> ((directory = [] \<or> endsWith directory ''/'')
            \<and> encodeURIComponent directory = Inr encodedDirectory
            \<and> encodeURIComponent fileName = Inr encodedName \<longrightarrow>
           encodeURIComponent (directory @ fileName) = Inr (encodedDirectory @ encodedName))
       \<and> (findAvailableFileName e vault (ensureTrailingSlash path) (sanitizeFileName e noteName) s
             = (name, s1) \<and> \<not> hasUnpairedSurrogate vault \<and> \<not> hasUnpairedSurrogate name \<longrightarrow>
           trace (snd (createNoteViaLocalRestApi e fileContent noteName path vault Create s))
             = trace s1 @ [Fetch (noteRequest e vault name ''POST'' fileContent)])
       \<and> (findAvailableFileName e vault (ensureTrailingSlash path) (sanitizeFileName e noteName) s
             = (name, s1) \<and> (hasUnpairedSurrogate vault \<or> hasUnpairedSurrogate name) \<longrightarrow>
           createNoteViaLocalRestApi e fileContent noteName path vault Create s
             = (\<lparr>success = False, error = Some ''URI malformed''\<rparr>, s1))
       \<and> (sanitizeFileName e ''Daily Log'' = ''Daily Log''
            \<and> \<not> fst (checkFileExists e ''Main'' ''Logs/Daily Log.md'' s) \<longrightarrow>
           requests_of (trace (snd (createNoteViaLocalRestApi e ''# Hi'' ''Daily Log'' ''Logs''
                                      ''Main'' Create s)))
             = requests_of (trace s) @ [probe, post]
           \<and> (network e (remote (snd (checkFileExists e ''Main'' ''Logs/Daily Log.md'' s))) post
                 = (Inr r, w) \<and> 200 \<le> rs_status r \<and> rs_status r \<le> 299 \<longrightarrow>
               fst (createNoteViaLocalRestApi e ''# Hi'' ''Daily Log'' ''Logs'' ''Main'' Create s)
                 = \<lparr>success = True, error = None\<rparr>))"
proof (intro conjI impI)
  show "buildUrl e vault filePath =
           (if hasUnpairedSurrogate filePath \<or> hasUnpairedSurrogate vault then Inl URIError
            else Inr (if vault = [] then base @ ''/vault/'' @ percentEncode filePath
                      else base @ ''/vault/'' @ percentEncode vault @ ''/''
                             @ percentEncode filePath))"
    by (simp add: buildUrl_cases targetUrl_def interpolate_def assms(2))
  show "percentEncode (directory @ fileName) = percentEncode directory @ percentEncode fileName"
    by (simp add: percentEncode_def)
next
  assume "encodeURIComponent vault = Inr encodedVault
            \<and> encodeURIComponent filePath = Inr encodedPath"
  then show "buildUrl e vault filePath =
             Inr (if vault = [] then base @ ''/vault/'' @ encodedPath
                  else base @ ''/vault/'' @ encodedVault @ ''/'' @ encodedPath)"
    by (auto simp: buildUrl_cases targetUrl_def interpolate_def assms(2) encodeURIComponent_def
        split: if_splits)
next
  assume h: "(directory = [] \<or> endsWith directory ''/'')
            \<and> encodeURIComponent directory = Inr encodedDirectory
            \<and> encodeURIComponent fileName = Inr encodedName"
  have "directory = [] \<or> last directory \<noteq> CHR 0xED"
  proof (cases "directory = []")
    case True
    then show ?thesis by simp
  next
    case False
    then have "endsWith directory ''/''"
      using h by simp
    then have "drop (length directory - 1) directory = ''/''"
      by (simp add: endsWith_def)
    moreover have "drop (length directory - 1) directory = [last directory]"
      using False by (induction directory) (auto simp: drop_Cons' split: if_splits)
    ultimately have "last directory = CHR ''/''"
      by simp
    moreover have "CHR ''/'' \<noteq> CHR 0xED"
      by simp
    ultimately show ?thesis
      by (simp only: simp_thms)
  qed
  from hasUnpairedSurrogate_join [OF this, of fileName] h
  show "encodeURIComponent (directory @ fileName) = Inr (encodedDirectory @ encodedName)"
    by (auto simp: encodeURIComponent_def percentEncode_def split: if_splits)
next
  assume f: "findAvailableFileName e vault (ensureTrailingSlash path) (sanitizeFileName e noteName) s
               = (name, s1) \<and> \<not> hasUnpairedSurrogate vault \<and> \<not> hasUnpairedSurrogate name"
  have "planRequest e fileContent (sanitizeFileName e noteName) (ensureTrailingSlash path)
          vault Create s = (Inr (targetUrl e vault name, ''POST'', fileContent), s1)"
    using f by (simp add: planRequest_create)
  from createNote_trace_after_plan [OF assms(1) this]
  show "trace (snd (createNoteViaLocalRestApi e fileContent noteName path vault Create s))
          = trace s1 @ [Fetch (noteRequest e vault name ''POST'' fileContent)]"
    by (simp add: noteRequest_def)
next
  assume f: "findAvailableFileName e vault (ensureTrailingSlash path) (sanitizeFileName e noteName) s
               = (name, s1) \<and> (hasUnpairedSurrogate vault \<or> hasUnpairedSurrogate name)"
  have "planRequest e fileContent (sanitizeFileName e noteName) (ensureTrailingSlash path)
          vault Create s = (Inl URIError, s1)"
    using f by (auto simp: planRequest_create)
  from createNote_plan_throws [OF assms(1) this]
  show "createNoteViaLocalRestApi e fileContent noteName path vault Create s
          = (\<lparr>success = False, error = Some ''URI malformed''\<rparr>, s1)"
    by (simp add: URIError_def)
next
  assume h: "sanitizeFileName e ''Daily Log'' = ''Daily Log''
            \<and> \<not> fst (checkFileExists e ''Main'' ''Logs/Daily Log.md'' s)"
  let ?s1 = "snd (checkFileExists e ''Main'' ''Logs/Daily Log.md'' s)"
  have slash: "ensureTrailingSlash ''Logs'' = ''Logs/''"
    by (simp add: ensureTrailingSlash_def endsWith_def)
  have enc: "percentEncode ''Logs/Daily Log.md'' = ''Logs%2FDaily%20Log.md''"
    by (simp add: percentEncode_def uriUnreserved_def percentEscape_def hexUpper_def)
  have url: "targetUrl e ''Main'' ''Logs/Daily Log.md'' = base @ ''/vault/Main/Logs%2FDaily%20Log.md''"
    by (simp add: targetUrl_def interpolate_def assms(2) enc)
      (simp add: percentEncode_def uriUnreserved_def)
  have f: "findAvailableFileName e ''Main'' ''Logs/'' ''Daily Log'' s = (''Logs/Daily Log.md'', ?s1)"
    using findAvailableFileName_absent [of e "''Main''" "''Logs/''" "''Daily Log''" s] h
    by simp
  have plan: "planRequest e ''# Hi'' (sanitizeFileName e ''Daily Log'') (ensureTrailingSlash ''Logs'')
                ''Main'' Create s
              = (Inr (base @ ''/vault/Main/Logs%2FDaily%20Log.md'', ''POST'', ''# Hi''), ?s1)"
    using h by (simp add: planRequest_create slash f url)
  have hd: "requestHeaders (generalSettings e) ''# Hi''
              = [(''Authorization'', ''Bearer '' @ key), (''Content-Type'', ''text/markdown'')]"
    by (simp add: requestHeaders_def bearer_def interpolate_def assms(3) startsWith_def)
  have pr: "probeRequests e ''Main'' ''Logs/Daily Log.md'' = [probe]"
    by (simp add: probeRequests_def existenceProbe_def url bearer_def interpolate_def assms(3)
        assms(5))
  show "requests_of (trace (snd (createNoteViaLocalRestApi e ''# Hi'' ''Daily Log'' ''Logs''
                                      ''Main'' Create s)))
             = requests_of (trace s) @ [probe, post]"
    using createNote_trace_after_plan [OF assms(1) plan]
      checkFileExists_requests [of e "''Main''" "''Logs/Daily Log.md''" s]
    by (simp add: hd pr assms(4))
  assume n: "network e (remote ?s1) post = (Inr r, w) \<and> 200 \<le> rs_status r \<and> rs_status r \<le> 299"
  then have "network e (remote ?s1)
               \<lparr>rq_url = base @ ''/vault/Main/Logs%2FDaily%20Log.md'', rq_method = ''POST'',
                rq_headers = requestHeaders (generalSettings e) ''# Hi'',
                rq_body = Some ''# Hi''\<rparr> = (Inr r, w)"
    by (simp add: hd assms(4))
  from createNote_result_after_plan [OF assms(1) plan this] n
  show "fst (createNoteViaLocalRestApi e ''# Hi'' ''Daily Log'' ''Logs'' ''Main'' Create s)
          = \<lparr>success = True, error = None\<rparr>"
    by simp
qed

theorem create_note_target_url_witness:
  "isLocalRestApiAvailable (generalSettings sampleEnv)
   \<and> sanitizeFileName sampleEnv ''Daily Log'' = ''Daily Log''
   \<and> \<not> fst (checkFileExists sampleEnv ''Main'' ''Logs/Daily Log.md'' (start []))
   \<and> requests_of (trace (snd (createNoteViaLocalRestApi sampleEnv ''# Hi'' ''Daily Log'' ''Logs''
                                 ''Main'' Create (start []))))
       = [\<lparr>rq_url = ''http://127.0.0.1:27123/vault/Main/Logs%2FDaily%20Log.md'',
           rq_method = ''GET'',
           rq_headers = [(''Authorization'', ''Bearer secret'')], rq_body = None\<rparr>,
          \<lparr>rq_url = ''http://127.0.0.1:27123/vault/Main/Logs%2FDaily%20Log.md'',
           rq_method = ''POST'',
           rq_headers = [(''Authorization'', ''Bearer secret''),
                         (''Content-Type'', ''text/markdown'')],
           rq_body = Some ''# Hi''\<rparr>]
   \<and> fst (createNoteViaLocalRestApi sampleEnv ''# Hi'' ''Daily Log'' ''Logs'' ''Main'' Create (start []))
       = \<lparr>success = True, error = None\<rparr>
   \<and> buildUrl sampleEnv [] ''Inbox/A b.md''
       = Inr ''http://127.0.0.1:27123/vault/Inbox%2FA%20b.md''
   \<and> buildUrl sampleEnv ''Main'' loneSurrogate = Inl URIError"
proof -
  have a: "isLocalRestApiAvailable (generalSettings sampleEnv)"
    by (simp add: sample_run)
  have u: "localRestApiUrl (generalSettings sampleEnv) = Some ''http://127.0.0.1:27123''"
    by (simp add: sampleEnv_def sampleSettings_def)
  have k: "localRestApiKey (generalSettings sampleEnv) = Some ''secret''"
    by (simp add: sampleEnv_def sampleSettings_def)
  have z: "sanitizeFileName sampleEnv ''Daily Log'' = ''Daily Log''"
    by (simp add: sampleEnv_def)
  have p: "\<not> fst (checkFileExists sampleEnv ''Main'' ''Logs/Daily Log.md'' (start []))"
    by (simp add: sample_run)
  have n: "network sampleEnv (remote (snd (checkFileExists sampleEnv ''Main'' ''Logs/Daily Log.md''
                                             (start []))))
             \<lparr>rq_url = ''http://127.0.0.1:27123'' @ ''/vault/Main/Logs%2FDaily%20Log.md'',
              rq_method = ''POST'',
              rq_headers = [(''Authorization'', ''Bearer '' @ ''secret''),
                            (''Content-Type'', ''text/markdown'')],
              rq_body = Some ''# Hi''\<rparr>
           = (Inr \<lparr>rs_status = 204, rs_text = Inr []\<rparr>,
              [''http://127.0.0.1:27123/vault/Main/Logs%2FDaily%20Log.md''])"
    by (simp add: sample_run)
  have e: "percentEncode ''Inbox/A b.md'' = ''Inbox%2FA%20b.md''"
    by (simp add: percentEncode_def uriUnreserved_def percentEscape_def hexUpper_def)
  have g: "\<not> hasUnpairedSurrogate ''Inbox/A b.md''"
    by simp
  have b: "hasUnpairedSurrogate loneSurrogate"
    by (simp add: loneSurrogate_def)
  have first: "buildUrl sampleEnv [] ''Inbox/A b.md''
       = Inr ''http://127.0.0.1:27123/vault/Inbox%2FA%20b.md''"
    using e g create_note_target_url [OF a u k refl refl, where vault = "[]"
        and filePath = "''Inbox/A b.md''"]
    by simp
  have second: "buildUrl sampleEnv ''Main'' loneSurrogate = Inl URIError"
    using b create_note_target_url [OF a u k refl refl, where vault = "''Main''"
        and filePath = loneSurrogate]
    by simp
  show ?thesis
    using a z p n first second create_note_target_url [OF a u k refl refl, where s = "start []"
        and r = "\<lparr>rs_status = 204, rs_text = Inr []\<rparr>"
        and w = "[''http://127.0.0.1:27123/vault/Main/Logs%2FDaily%20Log.md'']"]
    by (simp add: start_def)
qed

subsection \<open>Normalising the path and the name\<close>

lemma endsWith_iff: "endsWith s p \<longleftrightarrow> (\<exists>q. s = q @ p)"
proof
  assume "endsWith s p"
  then have "s = take (length s - length p) s @ p"
    by (metis append_take_drop_id endsWith_def)
  then show "\<exists>q. s = q @ p" ..
next
  assume "\<exists>q. s = q @ p"
  then show "endsWith s p"
    by (auto simp: endsWith_def)
qed

lemma createNote_normalised:
  assumes "ensureTrailingSlash path = ensureTrailingSlash otherPath"
    and "sanitizeFileName e noteName = sanitizeFileName e otherName"
  shows "createNoteViaLocalRestApi e fileContent noteName path vault behavior s
           = createNoteViaLocalRestApi e fileContent otherName otherPath vault behavior s"
proof -
  have "createNoteViaLocalRestApi_try e fileContent noteName path vault behavior s
          = createNoteViaLocalRestApi_try e fileContent otherName otherPath vault behavior s"
    unfolding createNoteViaLocalRestApi_try_def Let_def
    using assms by simp
  then show ?thesis
    by (simp add: createNoteViaLocalRestApi_def)
qed

text \<open>
  What the namer sends and returns when the vault and the plain name hold no unpaired
  surrogate.
\<close>

lemma findAvailableFileName_probes:
  assumes "findAvailableFileName e vault path baseName s = (name, s')"
    and "\<not> hasUnpairedSurrogate vault"
    and "\<not> hasUnpairedSurrogate (path @ baseName @ ''.md'')"
    and "n = probesOf e vault path baseName s"
  shows "requests_of (trace s')
           = requests_of (trace s) @ map (existenceProbe e vault) (take n (candidates path baseName))"
    and "name = candidates path baseName ! (n - 1)
         \<or> name = path @ baseName @ '' '' @ numberToString (Date_now e) @ ''.md''"
    and "\<not> hasUnpairedSurrogate name"
proof -
  let ?cs = "candidates path baseName"
  obtain r m s2 where f: "firstAbsent (checkFileExists e vault) ?cs s = ((r, m), s2)"
    by (cases "firstAbsent (checkFileExists e vault) ?cs s") auto
  have n: "n = m"
    using f assms(4) by (simp add: probesOf_def)
  have len: "length ?cs = 1000"
    by (simp add: candidates_def)
  have res: "(name, s') = reserve e vault path baseName s"
    using assms(1) by (simp add: findAvailableFileName_reserve)
  have s2: "s2 = s'"
    using res f by (auto simp: reserve_def split: option.splits)
  have "path @ baseName @ ''.md'' \<in> set ?cs"
    by (simp add: candidates_def)
  then have base: "\<not> hasUnpairedSurrogate (path @ baseName)"
    using assms(3) candidates_surrogate by blast
  show "requests_of (trace s') = requests_of (trace s) @ map (existenceProbe e vault) (take n ?cs)"
    using firstAbsent_requests [OF f] n s2 probes_of_candidates [OF assms(2) base, of e n]
    by simp
  have pos: "1 \<le> m"
    using f by (auto simp: candidates_def split: prod.splits if_splits)
  have le: "m \<le> 1000"
    using firstAbsent_count [OF f] len by simp
  show last: "name = ?cs ! (n - 1)
            \<or> name = path @ baseName @ '' '' @ numberToString (Date_now e) @ ''.md''"
  proof (cases r)
    case None
    then show ?thesis
      using f res by (simp add: reserve_def)
  next
    case (Some c)
    then show ?thesis
      using firstAbsent_found [of "checkFileExists e vault" ?cs s c m s2] f res n
      by (simp add: reserve_def)
  qed
  have "?cs ! (n - 1) \<in> set ?cs"
    using pos le len n by simp
  then have cand: "\<not> hasUnpairedSurrogate (?cs ! (n - 1))"
    using base candidates_surrogate by blast
  have "CHR 0xED \<notin> set (numberToString (Date_now e))"
    using decimal_no_ED by (simp add: numberToString_def)
  then have "hasUnpairedSurrogate
               ((path @ baseName) @ CHR '' '' # (numberToString (Date_now e) @ ''.md''))
             = hasUnpairedSurrogate (path @ baseName)"
    by (intro hasUnpairedSurrogate_append) simp_all
  then have stamp: "\<not> hasUnpairedSurrogate
                        (path @ baseName @ '' '' @ numberToString (Date_now e) @ ''.md'')"
    using base by simp
  show "\<not> hasUnpairedSurrogate name"
    using last cand stamp by auto
qed

lemma create_requests:
  assumes "isLocalRestApiAvailable (generalSettings e)"
    and "\<not> hasUnpairedSurrogate vault"
    and "\<not> hasUnpairedSurrogate (ensureTrailingSlash path @ sanitizeFileName e noteName @ ''.md'')"
    and "name = fst (findAvailableFileName e vault (ensureTrailingSlash path)
                       (sanitizeFileName e noteName) s)"
    and "n = probesOf e vault (ensureTrailingSlash path) (sanitizeFileName e noteName) s"
  shows "requests_of (trace (snd (createNoteViaLocalRestApi e fileContent noteName path vault
                                    Create s)))
           = requests_of (trace s)
               @ map (existenceProbe e vault)
                   (take n (candidates (ensureTrailingSlash path) (sanitizeFileName e noteName)))
               @ [noteRequest e vault name ''POST'' fileContent]"
    and "name = candidates (ensureTrailingSlash path) (sanitizeFileName e noteName) ! (n - 1)
         \<or> name = ensureTrailingSlash path @ sanitizeFileName e noteName @ '' ''
                    @ numberToString (Date_now e) @ ''.md''"
proof -
  obtain s1 where f: "findAvailableFileName e vault (ensureTrailingSlash path)
                        (sanitizeFileName e noteName) s = (name, s1)"
    using assms(4)
    by (cases "findAvailableFileName e vault (ensureTrailingSlash path)
                 (sanitizeFileName e noteName) s") simp
  note facts = findAvailableFileName_probes [OF f assms(2) assms(3) assms(5)]
  have "planRequest e fileContent (sanitizeFileName e noteName) (ensureTrailingSlash path)
          vault Create s = (Inr (targetUrl e vault name, ''POST'', fileContent), s1)"
    using f facts(3) assms(2) by (simp add: planRequest_create)
  from createNote_trace_after_plan [OF assms(1) this]
  show "requests_of (trace (snd (createNoteViaLocalRestApi e fileContent noteName path vault
                                    Create s)))
           = requests_of (trace s)
               @ map (existenceProbe e vault)
                   (take n (candidates (ensureTrailingSlash path) (sanitizeFileName e noteName)))
               @ [noteRequest e vault name ''POST'' fileContent]"
    using facts(1) by (simp add: noteRequest_def)
  show "name = candidates (ensureTrailingSlash path) (sanitizeFileName e noteName) ! (n - 1)
         \<or> name = ensureTrailingSlash path @ sanitizeFileName e noteName @ '' ''
                    @ numberToString (Date_now e) @ ''.md''"
    by (rule facts(2))
qed

text \<open>
  Claim C7, as the code has it. A non-empty directory path is made to end with \<^verbatim>\<open>/\<close>: one
  \<^verbatim>\<open>/\<close> is appended when the path does not end with one, and then the path ends with exactly
  one; a path that already ends with \<^verbatim>\<open>/\<close> is used as it is, with all the separators it ends
  with. The empty path stays empty. The call reads the path and the note name through the
  normalised path and the sanitised name only: two calls whose paths normalise to the same
  string and whose names sanitise to the same string do the same.

  The path string used to form the target is the normalised path, and the name used is the
  sanitised name. Let the integration be available and let neither the vault nor the
  normalised path followed by the sanitised name hold an unpaired surrogate. Then
  \<^verbatim>\<open>overwrite\<close> adds to the trace the one \<^verbatim>\<open>PUT\<close> to the URL of the normalised path followed by
  the sanitised name and \<^verbatim>\<open>.md\<close>; \<^verbatim>\<open>append-specific\<close> and \<^verbatim>\<open>prepend-specific\<close> send the probe of
  that same file path and then the \<^verbatim>\<open>PATCH\<close> or \<^verbatim>\<open>POST\<close> to it; \<^verbatim>\<open>create\<close> sends the probes of
  the first \<open>n\<close> candidates made of the normalised path and the sanitised name, and then the
  \<^verbatim>\<open>POST\<close> to the name the namer returns, which is the \<open>n\<close>-th of these candidates or the
  normalised path followed by the sanitised name, a space, the timestamp and \<^verbatim>\<open>.md\<close>. (The
  daily behaviours use neither the path nor the name.)
\<close>

theorem path_normalised_before_use:
  "(path \<noteq> [] \<longrightarrow> endsWith (ensureTrailingSlash path) ''/'')
   \<and> (path \<noteq> [] \<and> \<not> endsWith path ''/'' \<longrightarrow>
        ensureTrailingSlash path = path @ ''/'' \<and> endsWithOneSlash (ensureTrailingSlash path))
   \<and> (endsWith path ''/'' \<longrightarrow> ensureTrailingSlash path = path)
   \<and> ensureTrailingSlash [] = []
   \<and> (ensureTrailingSlash path = ensureTrailingSlash otherPath
        \<and> sanitizeFileName e noteName = sanitizeFileName e otherName \<longrightarrow>
        createNoteViaLocalRestApi e fileContent noteName path vault behavior s
          = createNoteViaLocalRestApi e fileContent otherName otherPath vault behavior s)
   \<and> (isLocalRestApiAvailable (generalSettings e)
        \<and> \<not> hasUnpairedSurrogate vault
        \<and> \<not> hasUnpairedSurrogate (ensureTrailingSlash path @ sanitizeFileName e noteName @ ''.md'')
        \<longrightarrow>
        (behavior = Overwrite \<longrightarrow>
           trace (snd (createNoteViaLocalRestApi e fileContent noteName path vault behavior s))
             = trace s
                 @ [Fetch (noteRequest e vault
                             (ensureTrailingSlash path @ sanitizeFileName e noteName @ ''.md'')
                             ''PUT'' fileContent)])
        \<and> (behavior = AppendSpecific \<or> behavior = PrependSpecific \<longrightarrow>
             requests_of (trace (snd (createNoteViaLocalRestApi e fileContent noteName path vault
                                        behavior s)))
               = requests_of (trace s)
                   @ [existenceProbe e vault
                        (ensureTrailingSlash path @ sanitizeFileName e noteName @ ''.md''),
                      if fst (checkFileExists e vault
                                (ensureTrailingSlash path @ sanitizeFileName e noteName @ ''.md'') s)
                      then noteRequest e vault
                             (ensureTrailingSlash path @ sanitizeFileName e noteName @ ''.md'')
                             ''PATCH''
                             (JSON_stringify fileContent
                                (if behavior = AppendSpecific then ''end'' else ''start''))
                      else noteRequest e vault
                             (ensureTrailingSlash path @ sanitizeFileName e noteName @ ''.md'')
                             ''POST'' fileContent])
        \<and> (behavior = Create
             \<and> name = fst (findAvailableFileName e vault (ensureTrailingSlash path)
                             (sanitizeFileName e noteName) s)
             \<and> n = probesOf e vault (ensureTrailingSlash path) (sanitizeFileName e noteName) s
             \<longrightarrow>
             requests_of (trace (snd (createNoteViaLocalRestApi e fileContent noteName path vault
                                        behavior s)))
               = requests_of (trace s)
                   @ map (existenceProbe e vault)
                       (take n (candidates (ensureTrailingSlash path)
                                  (sanitizeFileName e noteName)))
                   @ [noteRequest e vault name ''POST'' fileContent]
             \<and> (name = candidates (ensureTrailingSlash path) (sanitizeFileName e noteName) ! (n - 1)
                  \<or> name = ensureTrailingSlash path @ sanitizeFileName e noteName @ '' ''
                             @ numberToString (Date_now e) @ ''.md'')))"
proof (intro conjI impI)
  show "endsWith (ensureTrailingSlash path) ''/''" if "path \<noteq> []"
    using that by (auto simp: ensureTrailingSlash_def endsWith_iff)
  show "ensureTrailingSlash path = path" if "endsWith path ''/''"
    using that by (simp add: ensureTrailingSlash_def)
  show "ensureTrailingSlash [] = []"
    by (simp add: ensureTrailingSlash_def)
  show "createNoteViaLocalRestApi e fileContent noteName path vault behavior s
          = createNoteViaLocalRestApi e fileContent otherName otherPath vault behavior s"
    if "ensureTrailingSlash path = ensureTrailingSlash otherPath
        \<and> sanitizeFileName e noteName = sanitizeFileName e otherName"
    using that createNote_normalised by blast
next
  assume h: "path \<noteq> [] \<and> \<not> endsWith path ''/''"
  then show a: "ensureTrailingSlash path = path @ ''/''"
    by (simp add: ensureTrailingSlash_def)
  have "\<not> endsWith (path @ ''/'') ''//''"
  proof
    assume "endsWith (path @ ''/'') ''//''"
    then obtain q where "path @ ''/'' = q @ ''//''"
      by (auto simp: endsWith_iff)
    then have "path = q @ ''/''"
      by simp
    then show False
      using h by (simp add: endsWith_iff)
  qed
  then show "endsWithOneSlash (ensureTrailingSlash path)"
    by (simp add: a endsWithOneSlash_def endsWith_iff)
next
  let ?target = "ensureTrailingSlash path @ sanitizeFileName e noteName @ ''.md''"
  assume g: "isLocalRestApiAvailable (generalSettings e)
        \<and> \<not> hasUnpairedSurrogate vault \<and> \<not> hasUnpairedSurrogate ?target"
  then have a: "isLocalRestApiAvailable (generalSettings e)"
    and v: "\<not> hasUnpairedSurrogate vault" and t: "\<not> hasUnpairedSurrogate ?target"
    by simp_all
  show "trace (snd (createNoteViaLocalRestApi e fileContent noteName path vault behavior s))
          = trace s @ [Fetch (noteRequest e vault ?target ''PUT'' fileContent)]"
    if "behavior = Overwrite"
    using regular_requests(2) [OF a refl v t that] .
  show "requests_of (trace (snd (createNoteViaLocalRestApi e fileContent noteName path vault
                                    behavior s)))
          = requests_of (trace s)
              @ [existenceProbe e vault ?target,
                 if fst (checkFileExists e vault ?target s)
                 then noteRequest e vault ?target ''PATCH''
                        (JSON_stringify fileContent
                           (if behavior = AppendSpecific then ''end'' else ''start''))
                 else noteRequest e vault ?target ''POST'' fileContent]"
    if "behavior = AppendSpecific \<or> behavior = PrependSpecific"
    using regular_requests(1) [OF a refl v t that] .
  assume c: "behavior = Create
             \<and> name = fst (findAvailableFileName e vault (ensureTrailingSlash path)
                             (sanitizeFileName e noteName) s)
             \<and> n = probesOf e vault (ensureTrailingSlash path) (sanitizeFileName e noteName) s"
  then have b: "behavior = Create"
    and nm: "name = fst (findAvailableFileName e vault (ensureTrailingSlash path)
                           (sanitizeFileName e noteName) s)"
    and cnt: "n = probesOf e vault (ensureTrailingSlash path) (sanitizeFileName e noteName) s"
    by simp_all
  show "requests_of (trace (snd (createNoteViaLocalRestApi e fileContent noteName path vault
                                    behavior s)))
          = requests_of (trace s)
              @ map (existenceProbe e vault)
                  (take n (candidates (ensureTrailingSlash path) (sanitizeFileName e noteName)))
              @ [noteRequest e vault name ''POST'' fileContent]"
    using create_requests(1) [OF a v t nm cnt] b by simp
  show "name = candidates (ensureTrailingSlash path) (sanitizeFileName e noteName) ! (n - 1)
         \<or> name = ensureTrailingSlash path @ sanitizeFileName e noteName @ '' ''
                    @ numberToString (Date_now e) @ ''.md''"
    using create_requests(2) [OF a v t nm cnt] .
qed

theorem path_normalised_before_use_witness:
  "ensureTrailingSlash ''Logs'' = ''Logs/'' \<and> endsWithOneSlash (ensureTrailingSlash ''Logs'')
   \<and> ensureTrailingSlash ''Logs/'' = ''Logs/''
   \<and> sanitizeFileName sampleEnv ''Daily [Log]'' = sanitizeFileName sampleEnv ''Daily Log''
   \<and> createNoteViaLocalRestApi sampleEnv ''# Hi'' ''Daily [Log]'' ''Logs'' ''Main'' Overwrite (start [])
       = createNoteViaLocalRestApi sampleEnv ''# Hi'' ''Daily Log'' ''Logs/'' ''Main'' Overwrite (start [])
   \<and> isLocalRestApiAvailable (generalSettings sampleEnv)
   \<and> trace (snd (createNoteViaLocalRestApi sampleEnv ''# Hi'' ''Daily [Log]'' ''Logs'' ''Main''
                    Overwrite (start [])))
       = [Fetch \<lparr>rq_url = ''http://127.0.0.1:27123/vault/Main/Logs%2FDaily%20Log.md'',
                 rq_method = ''PUT'',
                 rq_headers = [(''Authorization'', ''Bearer secret''),
                               (''Content-Type'', ''text/markdown'')],
                 rq_body = Some ''# Hi''\<rparr>]
   \<and> requests_of (trace (snd (createNoteViaLocalRestApi sampleEnv ''# Hi'' ''Daily [Log]'' ''Logs''
                                 ''Main'' Create (start []))))
       = [\<lparr>rq_url = ''http://127.0.0.1:27123/vault/Main/Logs%2FDaily%20Log.md'',
           rq_method = ''GET'',
           rq_headers = [(''Authorization'', ''Bearer secret'')], rq_body = None\<rparr>,
          \<lparr>rq_url = ''http://127.0.0.1:27123/vault/Main/Logs%2FDaily%20Log.md'',
           rq_method = ''POST'',
           rq_headers = [(''Authorization'', ''Bearer secret''),
                         (''Content-Type'', ''text/markdown'')],
           rq_body = Some ''# Hi''\<rparr>]"
proof -
  have n: "''Logs'' \<noteq> [] \<and> \<not> endsWith ''Logs'' ''/''"
    by (simp add: endsWith_def)
  have m: "endsWith ''Logs/'' ''/''"
    by (simp add: endsWith_def)
  have z: "sanitizeFileName sampleEnv ''Daily [Log]'' = sanitizeFileName sampleEnv ''Daily Log''"
    by (simp add: sampleEnv_def)
  have z': "sanitizeFileName sampleEnv ''Daily [Log]'' = ''Daily Log''"
    by (simp add: sampleEnv_def)
  have av: "isLocalRestApiAvailable (generalSettings sampleEnv)"
    by (simp add: sample_run)
  note first = path_normalised_before_use [where path = "''Logs''" and otherPath = "''Logs/''"
        and e = sampleEnv and noteName = "''Daily [Log]''" and otherName = "''Daily Log''"
        and fileContent = "''# Hi''" and vault = "''Main''" and behavior = Overwrite
        and s = "start []" and name = "[]" and n = 0]
  note second = path_normalised_before_use [where path = "''Logs/''" and otherPath = "''Logs/''"
        and e = sampleEnv and noteName = "''Daily Log''" and otherName = "''Daily Log''"
        and fileContent = "''# Hi''" and vault = "''Main''" and behavior = Overwrite
        and s = "start []" and name = "[]" and n = 0]
  note third = path_normalised_before_use [where path = "''Logs''"
        and e = sampleEnv and noteName = "''Daily [Log]''"
        and fileContent = "''# Hi''" and vault = "''Main''" and behavior = Create
        and s = "start []" and otherPath = "''Logs''" and otherName = "''Daily [Log]''"
        and name = "fst (findAvailableFileName sampleEnv ''Main'' (ensureTrailingSlash ''Logs'')
                           (sanitizeFileName sampleEnv ''Daily [Log]'') (start []))"
        and n = "probesOf sampleEnv ''Main'' (ensureTrailingSlash ''Logs'')
                   (sanitizeFileName sampleEnv ''Daily [Log]'') (start [])"]
  have "ensureTrailingSlash ''Logs'' = ''Logs'' @ ''/''"
    using first n by blast
  then have a: "ensureTrailingSlash ''Logs'' = ''Logs/''"
    by simp
  have o: "endsWithOneSlash (ensureTrailingSlash ''Logs'')"
    using first n by blast
  have b: "ensureTrailingSlash ''Logs/'' = ''Logs/''"
    using second m by blast
  have "ensureTrailingSlash ''Logs'' = ensureTrailingSlash ''Logs/''"
    using a b by simp
  then have c: "createNoteViaLocalRestApi sampleEnv ''# Hi'' ''Daily [Log]'' ''Logs'' ''Main'' Overwrite
                  (start [])
       = createNoteViaLocalRestApi sampleEnv ''# Hi'' ''Daily Log'' ''Logs/'' ''Main'' Overwrite
           (start [])"
    using first z by blast
  have enc: "\<not> hasUnpairedSurrogate ''Main''
             \<and> \<not> hasUnpairedSurrogate (ensureTrailingSlash ''Logs''
                    @ sanitizeFileName sampleEnv ''Daily [Log]'' @ ''.md'')"
    by (simp add: a z')
  have "trace (snd (createNoteViaLocalRestApi sampleEnv ''# Hi'' ''Daily [Log]'' ''Logs'' ''Main''
                      Overwrite (start [])))
          = trace (start ([] :: string list))
              @ [Fetch (noteRequest sampleEnv ''Main''
                          (ensureTrailingSlash ''Logs'' @ sanitizeFileName sampleEnv ''Daily [Log]''
                             @ ''.md'')
                          ''PUT'' ''# Hi'')]"
    using first av enc by blast
  then have p: "trace (snd (createNoteViaLocalRestApi sampleEnv ''# Hi'' ''Daily [Log]'' ''Logs''
                              ''Main'' Overwrite (start [])))
       = [Fetch \<lparr>rq_url = ''http://127.0.0.1:27123/vault/Main/Logs%2FDaily%20Log.md'',
                 rq_method = ''PUT'',
                 rq_headers = [(''Authorization'', ''Bearer secret''),
                               (''Content-Type'', ''text/markdown'')],
                 rq_body = Some ''# Hi''\<rparr>]"
    by (simp add: a z' noteRequest_def targetUrl_def percentEncode_def uriUnreserved_def
        percentEscape_def hexUpper_def requestHeaders_def bearer_def interpolate_def
        startsWith_def sampleEnv_def sampleSettings_def start_def)
  have "requests_of (trace (snd (createNoteViaLocalRestApi sampleEnv ''# Hi'' ''Daily [Log]''
                                   ''Logs'' ''Main'' Create (start []))))
          = requests_of (trace (start ([] :: string list)))
              @ map (existenceProbe sampleEnv ''Main'')
                  (take (probesOf sampleEnv ''Main'' (ensureTrailingSlash ''Logs'')
                           (sanitizeFileName sampleEnv ''Daily [Log]'') (start []))
                     (candidates (ensureTrailingSlash ''Logs'')
                        (sanitizeFileName sampleEnv ''Daily [Log]'')))
              @ [noteRequest sampleEnv ''Main''
                   (fst (findAvailableFileName sampleEnv ''Main'' (ensureTrailingSlash ''Logs'')
                           (sanitizeFileName sampleEnv ''Daily [Log]'') (start [])))
                   ''POST'' ''# Hi'']"
    using third av enc by blast
  moreover have "findAvailableFileName sampleEnv ''Main'' ''Logs/'' ''Daily Log'' (start [])
                  = (''Logs/Daily Log.md'',
                     \<lparr>remote = [],
                      trace = [Fetch (existenceProbe sampleEnv ''Main'' ''Logs/Daily Log.md'')]\<rparr>)"
    by (simp add: findAvailableFileName_def sample_run)
  moreover have "probesOf sampleEnv ''Main'' ''Logs/'' ''Daily Log'' (start []) = 1"
    by (simp add: probesOf_def candidates_def sample_run)
  ultimately have q: "requests_of (trace (snd (createNoteViaLocalRestApi sampleEnv ''# Hi''
                                   ''Daily [Log]'' ''Logs'' ''Main'' Create (start []))))
       = [\<lparr>rq_url = ''http://127.0.0.1:27123/vault/Main/Logs%2FDaily%20Log.md'',
           rq_method = ''GET'',
           rq_headers = [(''Authorization'', ''Bearer secret'')], rq_body = None\<rparr>,
          \<lparr>rq_url = ''http://127.0.0.1:27123/vault/Main/Logs%2FDaily%20Log.md'',
           rq_method = ''POST'',
           rq_headers = [(''Authorization'', ''Bearer secret''),
                         (''Content-Type'', ''text/markdown'')],
           rq_body = Some ''# Hi''\<rparr>]"
    by (simp add: a z' candidates_def existenceProbe_def noteRequest_def targetUrl_def
        percentEncode_def uriUnreserved_def percentEscape_def hexUpper_def requestHeaders_def
        bearer_def interpolate_def startsWith_def sampleEnv_def sampleSettings_def start_def)
  show ?thesis
    using a o b z c av p q by blast
qed

text \<open>
  The statement of C7 itself fails: the path \<^verbatim>\<open>Logs//\<close> is not empty, it is used as it is, and
  it ends with two separators; the target written is \<^verbatim>\<open>Logs//Note.md\<close>.
\<close>

theorem path_two_separators_kept:
  "''Logs//'' \<noteq> []
   \<and> ensureTrailingSlash ''Logs//'' = ''Logs//''
   \<and> \<not> endsWithOneSlash (ensureTrailingSlash ''Logs//'')
   \<and> requests_of (trace (snd (createNoteViaLocalRestApi sampleEnv ''# Hi'' ''Note'' ''Logs//''
                                 ''Main'' Overwrite (start []))))
       = [\<lparr>rq_url = ''http://127.0.0.1:27123/vault/Main/Logs%2F%2FNote.md'',
           rq_method = ''PUT'',
           rq_headers = [(''Authorization'', ''Bearer secret''),
                         (''Content-Type'', ''text/markdown'')],
           rq_body = Some ''# Hi''\<rparr>]"
  by (simp add: endsWithOneSlash_def sample_run)

subsection \<open>The content type\<close>

lemma JSON_stringify_brace: "startsWith (JSON_stringify content position) ''{''"
  by (simp add: JSON_stringify_def startsWith_def)

lemma content_type_by_first_character:
  "rq_headers (noteRequest e vault filePath method body)
     = [bearer (generalSettings e),
        (''Content-Type'',
         if startsWith body ''{'' then ''application/json'' else ''text/markdown'')]"
  by (simp add: noteRequest_def requestHeaders_def)

text \<open>
  Claim C6 does not hold of the code. The content type is chosen by the first character of
  the body: a JSON envelope starts with \<^verbatim>\<open>{\<close> and is sent as \<^verbatim>\<open>application/json\<close>, but so is a
  raw body that starts with \<^verbatim>\<open>{\<close>. Here \<^verbatim>\<open>overwrite\<close> sends the raw document
  \<^verbatim>\<open>{todo} buy milk\<close> with \<^verbatim>\<open>PUT\<close>, and the request says \<^verbatim>\<open>application/json\<close>, where the claim
  says \<^verbatim>\<open>text/markdown\<close>.
\<close>

theorem raw_body_sent_as_json:
  "requests_of (trace (snd (createNoteViaLocalRestApi sampleEnv ''{todo} buy milk'' ''Note'' ''Logs''
                              ''Main'' Overwrite (start []))))
     = [\<lparr>rq_url = ''http://127.0.0.1:27123/vault/Main/Logs%2FNote.md'',
         rq_method = ''PUT'',
         rq_headers = [(''Authorization'', ''Bearer secret''),
                       (''Content-Type'', ''application/json'')],
         rq_body = Some ''{todo} buy milk''\<rparr>]"
  by (simp add: sample_run)

theorem raw_body_sent_as_json_witness:
  "map rq_headers
     (requests_of (trace (snd (createNoteViaLocalRestApi sampleEnv ''{todo} buy milk'' ''Note''
                                 ''Logs'' ''Main'' Overwrite (start [])))))
     = [[(''Authorization'', ''Bearer secret''), (''Content-Type'', ''application/json'')]]
   \<and> map rq_body
     (requests_of (trace (snd (createNoteViaLocalRestApi sampleEnv ''{todo} buy milk'' ''Note''
                                 ''Logs'' ''Main'' Overwrite (start [])))))
     = [Some ''{todo} buy milk'']"
  using raw_body_sent_as_json by simp

end
